theory Spec2Isabelle
  imports Main
begin

section \<open>JavaScript values and the runtime\<close>

text \<open>
  The client and the agent loop are TypeScript. Every value they decode from the wire is
  a JSON value. Numbers are IEEE doubles in the program; the model keeps the number type
  as the parameter \<open>'n\<close> and takes the three things the program does with a number (test
  it for truth, print it, make one from a counter) from the runtime record below, as it
  takes the JSON codec, which is the platform's and not this repository's.
  An object is its list of own properties in insertion order, with distinct keys.
  Strings are lists of bytes (the UTF-8 encoding of the source's strings).
\<close>

datatype 'n json =
    JNull
  | JBool bool
  | JNumber 'n
  | JString string
  | JArray "'n json list"
  | JObject "(string \<times> 'n json) list"

text \<open>A thrown value: the class of the error object and its \<open>message\<close>.\<close>

datatype error =
    Error string
  | TypeError string
  | SyntaxError string
  | DOMException string

fun error_message :: "error \<Rightarrow> string" where
  "error_message (Error m) = m"
| "error_message (TypeError m) = m"
| "error_message (SyntaxError m) = m"
| "error_message (DOMException m) = m"

text \<open>
  \<open>JSON_parse\<close> is \<^verbatim>\<open>JSON.parse(text)\<close> (\<open>Inl\<close>: it throws),
  \<open>JSON_stringify\<close> is \<^verbatim>\<open>JSON.stringify(v)\<close>,
  \<open>JSON_stringify_indent2\<close> is \<^verbatim>\<open>JSON.stringify(v, null, 2)\<close>.
\<close>

record 'n runtime =
  JSON_parse :: "string \<Rightarrow> error + 'n json"
  JSON_stringify :: "'n json \<Rightarrow> string"
  JSON_stringify_indent2 :: "'n json \<Rightarrow> string"
  Number_truthy :: "'n \<Rightarrow> bool"
  Number_toString :: "'n \<Rightarrow> string"
  Number_of_nat :: "nat \<Rightarrow> 'n"

text \<open>
  A value that may be \<^verbatim>\<open>undefined\<close> is an option (\<open>None\<close> is \<^verbatim>\<open>undefined\<close>).
  \<open>ToBoolean\<close> is the truth test of \<^verbatim>\<open>if (v)\<close> and \<^verbatim>\<open>!v\<close>.
\<close>

fun ToBoolean :: "'n runtime \<Rightarrow> 'n json option \<Rightarrow> bool" where
  "ToBoolean rt None = False"
| "ToBoolean rt (Some JNull) = False"
| "ToBoolean rt (Some (JBool b)) = b"
| "ToBoolean rt (Some (JNumber n)) = Number_truthy rt n"
| "ToBoolean rt (Some (JString s)) = (s \<noteq> [])"
| "ToBoolean rt (Some (JArray xs)) = True"
| "ToBoolean rt (Some (JObject kvs)) = True"

text \<open>
  \<^verbatim>\<open>String(v)\<close> on a decoded value. An array prints its elements joined by commas, with
  \<^verbatim>\<open>null\<close> printed as nothing. An object prints as \<^verbatim>\<open>[object Object]\<close>, unless it has
  an own property \<^verbatim>\<open>toString\<close>: a decoded value is never callable, so the conversion
  finds no method that yields a primitive and throws a TypeError.
\<close>

fun ToString :: "'n runtime \<Rightarrow> 'n json \<Rightarrow> error + string"
  and join :: "'n runtime \<Rightarrow> 'n json list \<Rightarrow> error + string" where
  "ToString rt JNull = Inr ''null''"
| "ToString rt (JBool b) = Inr (if b then ''true'' else ''false'')"
| "ToString rt (JNumber n) = Inr (Number_toString rt n)"
| "ToString rt (JString s) = Inr s"
| "ToString rt (JArray xs) = join rt xs"
| "ToString rt (JObject kvs) =
     (if map_of kvs ''toString'' \<noteq> None
      then Inl (TypeError ''Cannot convert object to primitive value'')
      else Inr ''[object Object]'')"
| "join rt [] = Inr []"
| "join rt (x # xs) =
     (case (if x = JNull then Inr [] else ToString rt x) of
        Inl e \<Rightarrow> Inl e
      | Inr s \<Rightarrow>
          (if xs = [] then Inr s
           else (case join rt xs of Inl e \<Rightarrow> Inl e | Inr r \<Rightarrow> Inr (s @ '','' @ r))))"

fun String :: "'n runtime \<Rightarrow> 'n json option \<Rightarrow> error + string" where
  "String rt None = Inr ''undefined''"
| "String rt (Some v) = ToString rt v"

text \<open>
  \<open>Get v k\<close> is the property read \<^verbatim>\<open>v.k\<close>: it throws on \<^verbatim>\<open>null\<close>, gives the own
  property of an object and \<^verbatim>\<open>undefined\<close> otherwise. \<open>GetOpt v k\<close> is \<^verbatim>\<open>v?.k\<close>. The
  program reads the keys \<^verbatim>\<open>message\<close>, \<^verbatim>\<open>data\<close> and \<^verbatim>\<open>reply\<close> only, which no
  prototype defines; inherited properties are not modelled.
\<close>

fun Get :: "'n json \<Rightarrow> string \<Rightarrow> error + 'n json option" where
  "Get JNull k = Inl (TypeError (''Cannot read properties of null (reading '' @ [CHR 0x27] @ k @ [CHR 0x27] @ '')''))"
| "Get (JObject kvs) k = Inr (map_of kvs k)"
| "Get v k = Inr None"

fun GetOpt :: "'n json option \<Rightarrow> string \<Rightarrow> 'n json option" where
  "GetOpt None k = None"
| "GetOpt (Some JNull) k = None"
| "GetOpt (Some (JObject kvs)) k = map_of kvs k"
| "GetOpt (Some v) k = None"


section \<open>Tasks\<close>

text \<open>The interface \<^verbatim>\<open>A2ATask\<close> of \<^verbatim>\<open>a2a-client.ts\<close>. The client guards
  \<^verbatim>\<open>task.artifacts\<close> with \<^verbatim>\<open>?.\<close>, so the field may be absent; \<^verbatim>\<open>parts\<close> and
  \<^verbatim>\<open>text\<close> are as the interface declares them.\<close>

record part =
  kind :: string
  part_text :: string

record artifact =
  artifactId :: string
  artifact_name :: string
  parts :: "part list"

record task_status =
  state :: string
  timestamp :: string

record history_entry =
  history_state :: string
  history_timestamp :: string
  history_message :: "string option"

record low_balance_warning =
  balance :: string
  warning_message :: string

record task_metadata =
  lowBalanceWarning :: "low_balance_warning option"

record A2ATask =
  task_id :: string
  contextId :: string
  status :: task_status
  artifacts :: "artifact list option"
  history :: "history_entry list"
  metadata :: "task_metadata option"

section \<open>Reading a task's payload\<close>

text \<open>The sentinel of \<^verbatim>\<open>extractText\<close>: the bytes of the source's Korean literal
  (an opening parenthesis, two syllables, a space, two syllables, a closing parenthesis).\<close>

definition no_response :: string where
  "no_response =
     [CHR 0x28, CHR 0xEC, CHR 0x9D, CHR 0x91, CHR 0xEB, CHR 0x8B, CHR 0xB5, CHR 0x20,
      CHR 0xEC, CHR 0x97, CHR 0x86, CHR 0xEC, CHR 0x9D, CHR 0x8C, CHR 0x29]"

text \<open>\<^verbatim>\<open>task.artifacts[0].parts.find((p) => p.kind === "text")\<close>, after the guard
  \<^verbatim>\<open>!task.artifacts?.length\<close>; \<open>None\<close> covers both early exits that find no part.\<close>

definition textPart :: "A2ATask \<Rightarrow> part option" where
  "textPart task =
     (case artifacts task of
        None \<Rightarrow> None
      | Some [] \<Rightarrow> None
      | Some (a # rest) \<Rightarrow> find (\<lambda>p. kind p = ''text'') (parts a))"

text \<open>The body of the \<^verbatim>\<open>try\<close> block of \<^verbatim>\<open>extractText\<close>.\<close>

definition unwrap :: "'n runtime \<Rightarrow> string \<Rightarrow> error + string" where
  "unwrap rt t =
     (case JSON_parse rt t of
        Inl e \<Rightarrow> Inl e
      | Inr parsed \<Rightarrow>
          (case parsed of
             JString s \<Rightarrow> Inr s
           | _ \<Rightarrow>
              (case Get parsed ''message'' of
                 Inl e \<Rightarrow> Inl e
               | Inr message \<Rightarrow>
                   if ToBoolean rt message then String rt message
                   else
                     (case Get parsed ''data'' of
                        Inl e \<Rightarrow> Inl e
                      | Inr data \<Rightarrow>
                          if ToBoolean rt (GetOpt data ''reply'')
                          then String rt (GetOpt data ''reply'')
                          else if ToBoolean rt (GetOpt data ''message'')
                          then String rt (GetOpt data ''message'')
                          else
                            (case data of
                               Some (JString d) \<Rightarrow>
                                 if d \<noteq> [] then Inr d
                                 else Inr (JSON_stringify_indent2 rt parsed)
                             | _ \<Rightarrow> Inr (JSON_stringify_indent2 rt parsed))))))"

definition extractText :: "'n runtime \<Rightarrow> A2ATask \<Rightarrow> error + string" where
  "extractText rt task =
     (case textPart task of
        None \<Rightarrow> Inr no_response
      | Some p \<Rightarrow>
          if part_text p = [] then Inr no_response
          else (case unwrap rt (part_text p) of
                  Inl e \<Rightarrow> Inr (part_text p)
                | Inr s \<Rightarrow> Inr s))"

definition extractData :: "'n runtime \<Rightarrow> A2ATask \<Rightarrow> error + 'n json" where
  "extractData rt task =
     (case textPart task of
        None \<Rightarrow> Inr JNull
      | Some p \<Rightarrow>
          if part_text p = [] then Inr JNull
          else (case JSON_parse rt (part_text p) of
                  Inl e \<Rightarrow> Inr (JString (part_text p))
                | Inr v \<Rightarrow> Inr v))"

section \<open>The protocol client\<close>

text \<open>
  The transport is the \<^verbatim>\<open>fetch\<close> function the client is constructed with: a parameter of
  the model. It is handed a request and either rejects (a network failure, or the abort of
  the 60 second timeout) or resolves to a response. Of a response the client reads the
  status, \<^verbatim>\<open>res.text()\<close> and \<^verbatim>\<open>res.json()\<close>; the latter is cast to the interface
  \<^verbatim>\<open>JsonRpcResponse\<close>, so the model takes it at that type.
\<close>

record request =
  url :: string
  headers :: "(string \<times> string) list"
  body :: string

record 'n rpc_error =
  code :: 'n
  message :: string

record 'n JsonRpcResponse =
  jsonrpc :: string
  result :: "A2ATask option"
  error :: "'n rpc_error option"
  rpc_id :: "string + 'n"

record 'n response =
  http_status :: nat
  body_text :: "error + string"
  body_json :: "error + 'n JsonRpcResponse"

definition ok :: "'n response \<Rightarrow> bool" where
  "ok res = (200 \<le> http_status res \<and> http_status res \<le> 299)"

type_synonym 'n transport = "request \<Rightarrow> error + 'n response"

text \<open>
  The state of an \<^verbatim>\<open>A2AClient\<close>: its two private fields, and a history variable that the
  source does not have, \<open>sent\<close>, the requests handed to the transport so far.
\<close>

record client =
  baseUrl :: string
  rpcId :: nat
  sent :: "request list"

text \<open>The constructor strips one trailing slash: \<^verbatim>\<open>config.baseUrl.replace(/\/$/, "")\<close>.\<close>

definition new_client :: "string \<Rightarrow> client" where
  "new_client base =
     \<lparr> baseUrl = (if base \<noteq> [] \<and> last base = CHR ''/'' then butlast base else base),
       rpcId = 0,
       sent = [] \<rparr>"

text \<open>\<^verbatim>\<open>++this.rpcId\<close> on a double: once the counter is \<open>2^53\<close> adding one rounds back
  to it.\<close>

definition increment :: "nat \<Rightarrow> nat" where
  "increment n = (if n < 9007199254740992 then n + 1 else n)"

definition envelope :: "'n runtime \<Rightarrow> string \<Rightarrow> 'n json \<Rightarrow> nat \<Rightarrow> 'n json" where
  "envelope rt meth params n =
     JObject [(''jsonrpc'', JString ''2.0''), (''method'', JString meth),
              (''params'', params), (''id'', JNumber (Number_of_nat rt n))]"

definition rpc ::
  "'n runtime \<Rightarrow> 'n transport \<Rightarrow> string \<Rightarrow> 'n json \<Rightarrow> client
     \<Rightarrow> (error + 'n JsonRpcResponse) \<times> client" where
  "rpc rt fetch meth params c =
     (let n = increment (rpcId c);
          req = \<lparr> url = baseUrl c @ ''/a2a'',
                  headers = [(''Content-Type'', ''application/json'')],
                  body = JSON_stringify rt (envelope rt meth params n) \<rparr>;
          c' = c\<lparr> rpcId := n, sent := sent c @ [req] \<rparr>
      in case fetch req of
           Inl e \<Rightarrow> (Inl e, c')
         | Inr res \<Rightarrow>
             if \<not> ok res
             then (Inl (Error (''HTTP '' @ Number_toString rt (Number_of_nat rt (http_status res))
                                @ '': '' @ (case body_text res of Inl e \<Rightarrow> [] | Inr t \<Rightarrow> t))), c')
             else (body_json res, c'))"

text \<open>The \<^verbatim>\<open>rpcParams\<close> of \<^verbatim>\<open>sendText\<close> and \<^verbatim>\<open>send\<close>: \<^verbatim>\<open>contextId\<close> is added when
  it is truthy.\<close>

definition rpcParams :: "string \<Rightarrow> string option \<Rightarrow> 'n json" where
  "rpcParams t ctx =
     JObject
       ((''message'',
          JObject [(''role'', JString ''user''),
                   (''parts'', JArray [JObject [(''kind'', JString ''text''), (''text'', JString t)]])])
        # (case ctx of
             None \<Rightarrow> []
           | Some c \<Rightarrow> if c \<noteq> [] then [(''contextId'', JString c)] else []))"

definition a2a_error :: "'n runtime \<Rightarrow> 'n rpc_error \<Rightarrow> error" where
  "a2a_error rt e = Error (''A2A error ['' @ Number_toString rt (code e) @ '']: '' @ message e)"

definition sendText ::
  "'n runtime \<Rightarrow> 'n transport \<Rightarrow> string \<Rightarrow> string option \<Rightarrow> client
     \<Rightarrow> (error + A2ATask) \<times> client" where
  "sendText rt fetch t ctx c =
     (case rpc rt fetch ''message/send'' (rpcParams t ctx) c of
        (Inl e, c') \<Rightarrow> (Inl e, c')
      | (Inr response, c') \<Rightarrow>
          (case error response of
             Some e \<Rightarrow> (Inl (a2a_error rt e), c')
           | None \<Rightarrow>
               (case result response of
                  None \<Rightarrow> (Inl (Error ''Empty response from A2A endpoint''), c')
                | Some task \<Rightarrow> (Inr task, c'))))"

text \<open>The message text of \<^verbatim>\<open>send\<close>: \<^verbatim>\<open>JSON.stringify({ operation, params })\<close>.\<close>

definition operation_text :: "'n runtime \<Rightarrow> string \<Rightarrow> 'n json \<Rightarrow> string" where
  "operation_text rt operation params =
     JSON_stringify rt (JObject [(''operation'', JString operation), (''params'', params)])"

definition send ::
  "'n runtime \<Rightarrow> 'n transport \<Rightarrow> string \<Rightarrow> 'n json \<Rightarrow> string option \<Rightarrow> client
     \<Rightarrow> (error + A2ATask) \<times> client" where
  "send rt fetch operation params ctx c =
     (case rpc rt fetch ''message/send'' (rpcParams (operation_text rt operation params) ctx) c of
        (Inl e, c') \<Rightarrow> (Inl e, c')
      | (Inr response, c') \<Rightarrow>
          (case error response of
             Some e \<Rightarrow> (Inl (a2a_error rt e), c')
           | None \<Rightarrow>
               (case result response of
                  None \<Rightarrow> (Inl (Error ''Empty response from A2A endpoint''), c')
                | Some task \<Rightarrow> (Inr task, c'))))"

text \<open>\<^verbatim>\<open>getTask\<close> and \<^verbatim>\<open>cancelTask\<close> return \<^verbatim>\<open>response.result!\<close>: the assertion is
  erased at run time, so what is returned is the field, \<^verbatim>\<open>undefined\<close> (\<open>None\<close>) when the
  response has none.\<close>

definition getTask ::
  "'n runtime \<Rightarrow> 'n transport \<Rightarrow> string \<Rightarrow> client \<Rightarrow> (error + A2ATask option) \<times> client" where
  "getTask rt fetch taskId c =
     (case rpc rt fetch ''tasks/get'' (JObject [(''id'', JString taskId)]) c of
        (Inl e, c') \<Rightarrow> (Inl e, c')
      | (Inr response, c') \<Rightarrow>
          (case error response of
             Some e \<Rightarrow> (Inl (a2a_error rt e), c')
           | None \<Rightarrow> (Inr (result response), c')))"

definition cancelTask ::
  "'n runtime \<Rightarrow> 'n transport \<Rightarrow> string \<Rightarrow> client \<Rightarrow> (error + A2ATask option) \<times> client" where
  "cancelTask rt fetch taskId c =
     (case rpc rt fetch ''tasks/cancel'' (JObject [(''id'', JString taskId)]) c of
        (Inl e, c') \<Rightarrow> (Inl e, c')
      | (Inr response, c') \<Rightarrow>
          (case error response of
             Some e \<Rightarrow> (Inl (a2a_error rt e), c')
           | None \<Rightarrow> (Inr (result response), c')))"

section \<open>The orchestration loop\<close>

text \<open>
  The content blocks of the inference provider's messages. A tool-use block is tagged by
  the name of its tool, and \<^verbatim>\<open>runTurn\<close> casts its input to the shape of that tool: the
  constructors of \<open>tool_use\<close> are the two tools of the agent with their inputs at the
  types of the cast, and \<open>other_tool\<close> for a block with any other name.
\<close>

datatype 'n tool_use =
    declare_plan string "string list"
  | a2a_call "string option" string "string option" string "'n json option"
  | other_tool string "'n json"

datatype 'n content_block =
    TextBlock string
  | ToolUseBlock string "'n tool_use"
  | ToolResultBlock string string
  | OtherBlock string

datatype 'n message_content = Text string | Blocks "'n content_block list"

record 'n message_param =
  role :: string
  content :: "'n message_content"

text \<open>The argument of \<^verbatim>\<open>anthropic.messages.create\<close>: model, max_tokens, system, tools,
  messages. What it resolves to: the content blocks and the stop reason.\<close>

datatype 'n create_params =
  CreateParams string nat string "'n json list" "'n message_param list"

record 'n api_message =
  blocks :: "'n content_block list"
  stop_reason :: "string option"

type_synonym 'n provider = "'n create_params \<Rightarrow> error + 'n api_message"

text \<open>
  What a run works on: the module's client \<^verbatim>\<open>a2aClient\<close>, the array \<^verbatim>\<open>messages\<close> that
  \<^verbatim>\<open>runTurn\<close> extends in place, and a history variable that the source does not have,
  \<open>inferences\<close>, the arguments of the inference calls made so far.
  Writing to the terminal, the spinner, the pauses and the wait for the Enter key change
  none of these. They are left out and taken to return, but for the rendering of a reply
  inside the \<^verbatim>\<open>try\<close> block of \<^verbatim>\<open>executeCall\<close>, which can throw and is modelled
  below.
\<close>

record 'n world =
  a2aClient :: client
  messages :: "'n message_param list"
  inferences :: "'n create_params list"

definition MODEL :: string where
  "MODEL = ''claude-sonnet-4-6''"

text \<open>\<^verbatim>\<open>a ?? b\<close> on a value that may be \<^verbatim>\<open>undefined\<close> or \<^verbatim>\<open>null\<close>.\<close>

fun nullish :: "'n json option \<Rightarrow> 'n json \<Rightarrow> 'n json" where
  "nullish None d = d"
| "nullish (Some JNull) d = d"
| "nullish (Some v) d = v"

text \<open>The \<^verbatim>\<open>result\<close> object of \<^verbatim>\<open>executeCall\<close>: \<^verbatim>\<open>warning\<close> is set when the task has
  \<^verbatim>\<open>metadata.lowBalanceWarning\<close>.\<close>

definition call_result :: "A2ATask \<Rightarrow> 'n json \<Rightarrow> 'n json" where
  "call_result task d =
     JObject
       ([(''status'', JString (state (status task))), (''data'', d)]
        @ (case metadata task of
             None \<Rightarrow> []
           | Some m \<Rightarrow>
               (case lowBalanceWarning m of
                  None \<Rightarrow> []
                | Some w \<Rightarrow> [(''warning'', JString (warning_message w))])))"

text \<open>
  What \<^verbatim>\<open>executeCall\<close> writes to the terminal is not part of the model, but the
  functions that write it run inside its \<^verbatim>\<open>try\<close> block, and one of them can throw:
  the model keeps of them whether they return (\<open>Inr ()\<close>) or throw.

  \<^verbatim>\<open>formatResponse(raw)\<close> returns at once on \<^verbatim>\<open>null\<close> and \<^verbatim>\<open>undefined\<close>. It then
  evaluates \<^verbatim>\<open>"data" in obj\<close>, which throws a TypeError when \<^verbatim>\<open>raw\<close> is a string, a
  number or a boolean (the message is the engine's, here in the wording of V8). The value
  it goes on with is \<^verbatim>\<open>obj.data\<close> when there is one and \<^verbatim>\<open>raw\<close> otherwise; of an
  array it shows the first nine items, and for an item that is an object or an array it
  calls \<^verbatim>\<open>String\<close> on the first of some of its properties that is not nullish, which
  throws when that value cannot be converted. Everything else it does returns.
\<close>

text \<open>\<^verbatim>\<open>Object.keys(it)[0]\<close>.\<close>

definition first_key :: "'n json \<Rightarrow> 'n json option" where
  "first_key it =
     (case it of
        JObject ((k, v) # kvs) \<Rightarrow> Some (JString k)
      | JArray (x # xs) \<Rightarrow> Some (JString ''0'')
      | _ \<Rightarrow> None)"

text \<open>The two strings of an item:
  \<^verbatim>\<open>String(it.type ?? it.name ?? it.chart ?? it.id ?? it.namespace ?? Object.keys(it)[0] ?? "")\<close>
  and \<^verbatim>\<open>String(it.description ?? it.status ?? it.workloadType ?? it.phase ?? "")\<close>.\<close>

definition item_key :: "'n runtime \<Rightarrow> 'n json \<Rightarrow> error + string" where
  "item_key rt it =
     String rt (Some
       (nullish (GetOpt (Some it) ''type'')
         (nullish (GetOpt (Some it) ''name'')
           (nullish (GetOpt (Some it) ''chart'')
             (nullish (GetOpt (Some it) ''id'')
               (nullish (GetOpt (Some it) ''namespace'')
                 (nullish (first_key it) (JString []))))))))"

definition item_desc :: "'n runtime \<Rightarrow> 'n json \<Rightarrow> error + string" where
  "item_desc rt it =
     String rt (Some
       (nullish (GetOpt (Some it) ''description'')
         (nullish (GetOpt (Some it) ''status'')
           (nullish (GetOpt (Some it) ''workloadType'')
             (nullish (GetOpt (Some it) ''phase'') (JString []))))))"

text \<open>The body of the loop over the items of an array.\<close>

definition item_line :: "'n runtime \<Rightarrow> 'n json \<Rightarrow> error + unit" where
  "item_line rt item =
     (case item of
        JArray xs \<Rightarrow>
          (case item_key rt item of
             Inl e \<Rightarrow> Inl e
           | Inr k \<Rightarrow> (case item_desc rt item of Inl e \<Rightarrow> Inl e | Inr d \<Rightarrow> Inr ()))
      | JObject kvs \<Rightarrow>
          (case item_key rt item of
             Inl e \<Rightarrow> Inl e
           | Inr k \<Rightarrow> (case item_desc rt item of Inl e \<Rightarrow> Inl e | Inr d \<Rightarrow> Inr ()))
      | _ \<Rightarrow> Inr ())"

text \<open>A \<^verbatim>\<open>for\<close> loop whose body may throw.\<close>

fun for_each :: "('a \<Rightarrow> error + unit) \<Rightarrow> 'a list \<Rightarrow> error + unit" where
  "for_each f [] = Inr ()"
| "for_each f (x # xs) = (case f x of Inl e \<Rightarrow> Inl e | Inr u \<Rightarrow> for_each f xs)"

definition in_operator_error :: "'n runtime \<Rightarrow> 'n json \<Rightarrow> error" where
  "in_operator_error rt v =
     TypeError (''Cannot use '' @ [CHR 0x27] @ ''in'' @ [CHR 0x27] @ '' operator to search for ''
                @ [CHR 0x27] @ ''data'' @ [CHR 0x27] @ '' in ''
                @ (case ToString rt v of Inl e \<Rightarrow> [] | Inr s \<Rightarrow> s))"

definition formatResponse :: "'n runtime \<Rightarrow> 'n json option \<Rightarrow> error + unit" where
  "formatResponse rt raw =
     (case raw of
        None \<Rightarrow> Inr ()
      | Some JNull \<Rightarrow> Inr ()
      | Some (JBool b) \<Rightarrow> Inl (in_operator_error rt (JBool b))
      | Some (JNumber n) \<Rightarrow> Inl (in_operator_error rt (JNumber n))
      | Some (JString s) \<Rightarrow> Inl (in_operator_error rt (JString s))
      | Some obj \<Rightarrow>
          (case (case GetOpt (Some obj) ''data'' of Some d \<Rightarrow> d | None \<Rightarrow> obj) of
             JArray items \<Rightarrow> for_each (item_line rt) (take 9 items)
           | inner \<Rightarrow> Inr ()))"

text \<open>
  \<^verbatim>\<open>printCallBottom(raw, ms, status, willyMsg, fullTask)\<close>: it pretty-prints the task and
  the message, which returns, and then calls \<^verbatim>\<open>formatResponse\<close> on \<^verbatim>\<open>raw\<close>, without
  its property \<^verbatim>\<open>message\<close> when \<^verbatim>\<open>raw\<close> is an object that is not an array.
\<close>

definition printCallBottom :: "'n runtime \<Rightarrow> 'n json option \<Rightarrow> error + unit" where
  "printCallBottom rt raw =
     formatResponse rt
       (case raw of
          Some (JObject kvs) \<Rightarrow> Some (JObject (filter (\<lambda>kv. fst kv \<noteq> ''message'') kvs))
        | _ \<Rightarrow> raw)"

text \<open>The \<^verbatim>\<open>try\<close> block of \<^verbatim>\<open>executeCall\<close>, then the function with its \<^verbatim>\<open>catch\<close>. The
  first three arguments are shown on the terminal only. In the \<^verbatim>\<open>catch\<close> block
  \<^verbatim>\<open>printCallBottom\<close> is called on \<^verbatim>\<open>{ error: errMsg }\<close>, on which it returns.\<close>

definition executeCall_try ::
  "'n runtime \<Rightarrow> 'n transport \<Rightarrow> string \<Rightarrow> 'n json \<Rightarrow> client \<Rightarrow> (error + string) \<times> client" where
  "executeCall_try rt fetch operation params c =
     (case send rt fetch operation params None c of
        (Inl e, c') \<Rightarrow> (Inl e, c')
      | (Inr task, c') \<Rightarrow>
          (case extractData rt task of
             Inl e \<Rightarrow> (Inl e, c')
           | Inr d \<Rightarrow>
               (case printCallBottom rt (Some d) of
                  Inl e \<Rightarrow> (Inl e, c')
                | Inr u \<Rightarrow> (Inr (JSON_stringify_indent2 rt (call_result task d)), c'))))"

definition executeCall ::
  "'n runtime \<Rightarrow> 'n transport \<Rightarrow> string \<Rightarrow> string \<Rightarrow> string \<Rightarrow> string \<Rightarrow> 'n json \<Rightarrow> client
     \<Rightarrow> string \<times> client" where
  "executeCall rt fetch reflection narration reason operation params c =
     (case executeCall_try rt fetch operation params c of
        (Inl e, c') \<Rightarrow> (JSON_stringify rt (JObject [(''error'', JString (error_message e))]), c')
      | (Inr r, c') \<Rightarrow> (r, c'))"

text \<open>The \<^verbatim>\<open>for\<close> loop of \<^verbatim>\<open>runTurn\<close> over the blocks of a response, with the
  \<^verbatim>\<open>results\<close> collected so far.\<close>

fun dispatch ::
  "'n runtime \<Rightarrow> 'n transport \<Rightarrow> 'n content_block list \<Rightarrow> 'n content_block list \<Rightarrow> client
     \<Rightarrow> 'n content_block list \<times> client" where
  "dispatch rt fetch [] results c = (results, c)"
| "dispatch rt fetch (ToolUseBlock b (declare_plan title steps) # rest) results c =
     dispatch rt fetch rest
       (results @ [ToolResultBlock b ''Plan acknowledged. Proceed with execution.'']) c"
| "dispatch rt fetch (ToolUseBlock b (a2a_call reflection narration reason operation params) # rest) results c =
     (case executeCall rt fetch (case reflection of None \<Rightarrow> [] | Some r \<Rightarrow> r) narration
             (case reason of None \<Rightarrow> [] | Some r \<Rightarrow> r) operation (nullish params (JObject [])) c of
        (r, c') \<Rightarrow> dispatch rt fetch rest (results @ [ToolResultBlock b r]) c')"
| "dispatch rt fetch (block # rest) results c = dispatch rt fetch rest results c"

text \<open>\<^verbatim>\<open>runTurn\<close>: \<^verbatim>\<open>while (true)\<close>, left by \<^verbatim>\<open>break\<close> when the stop reason is
  \<^verbatim>\<open>end_turn\<close>, or by the rejection of the inference call, which nothing catches. The
  loop has no bound, so the function is partial: \<open>None\<close> is a run that never returns.\<close>

partial_function (option) runTurn ::
  "'n runtime \<Rightarrow> 'n transport \<Rightarrow> 'n provider \<Rightarrow> 'n json list \<Rightarrow> string \<Rightarrow> 'n world
     \<Rightarrow> ((error + unit) \<times> 'n world) option" where
  "runTurn rt fetch create tools systemPrompt w =
     (let ps = CreateParams MODEL 4096 systemPrompt tools (messages w);
          w1 = w\<lparr> inferences := inferences w @ [ps] \<rparr>
      in case create ps of
           Inl e \<Rightarrow> Some (Inl e, w1)
         | Inr response \<Rightarrow>
             (let w2 = w1\<lparr> messages := messages w1
                          @ [\<lparr> role = ''assistant'', content = Blocks (blocks response) \<rparr>] \<rparr>
              in if stop_reason response = Some ''end_turn'' then Some (Inr (), w2)
                 else if stop_reason response = Some ''tool_use'' then
                   (let rc = dispatch rt fetch (blocks response) [] (a2aClient w2)
                    in runTurn rt fetch create tools systemPrompt
                         (w2\<lparr> a2aClient := snd rc,
                              messages := messages w2 @ [\<lparr> role = ''user'', content = Blocks (fst rc) \<rparr>] \<rparr>))
                 else runTurn rt fetch create tools systemPrompt w2))"

section \<open>A reference runtime\<close>

text \<open>
  The properties below hold for every runtime, where they do not name this one. To run
  the model on concrete inputs this section gives a runtime: numbers are integers, and the
  codec is the JSON grammar over them, printed as \<^verbatim>\<open>JSON.stringify\<close> prints it. Its limits: a number with a fraction or an
  exponent, and a \<^verbatim>\<open>\u\<close> escape of a surrogate, are not read; properties keep the order
  of the text (the platform lists keys that are array indices first). The message of its
  SyntaxError is a placeholder: the program never reads it.
\<close>


definition digit :: "nat \<Rightarrow> char" where
  "digit d = ''0123456789abcdef'' ! d"

fun digits :: "nat \<Rightarrow> string" where
  "digits n = (if n < 10 then [digit n] else digits (n div 10) @ [digit (n mod 10)])"

declare digits.simps [simp del]

definition show_int :: "int \<Rightarrow> string" where
  "show_int i = (if i < 0 then ''-'' @ digits (nat (- i)) else digits (nat i))"

definition escape :: "char \<Rightarrow> string" where
  "escape c =
     (if c = CHR 0x22 then [CHR 0x5C, CHR 0x22]
      else if c = CHR 0x5C then [CHR 0x5C, CHR 0x5C]
      else if c = CHR 0x08 then [CHR 0x5C, CHR ''b'']
      else if c = CHR 0x0C then [CHR 0x5C, CHR ''f'']
      else if c = CHR 0x0A then [CHR 0x5C, CHR ''n'']
      else if c = CHR 0x0D then [CHR 0x5C, CHR ''r'']
      else if c = CHR 0x09 then [CHR 0x5C, CHR ''t'']
      else if of_char c < (32::nat)
      then [CHR 0x5C, CHR ''u'', CHR ''0'', CHR ''0'', digit (of_char c div 16), digit (of_char c mod 16)]
      else [c])"

definition quote :: "string \<Rightarrow> string" where
  "quote s = [CHR 0x22] @ concat (map escape s) @ [CHR 0x22]"

fun intercalate :: "string \<Rightarrow> string list \<Rightarrow> string" where
  "intercalate sep [] = []"
| "intercalate sep [x] = x"
| "intercalate sep (x # y # ys) = x @ sep @ intercalate sep (y # ys)"

fun stringify :: "nat \<Rightarrow> nat \<Rightarrow> int json \<Rightarrow> string" where
  "stringify gap ind JNull = ''null''"
| "stringify gap ind (JBool b) = (if b then ''true'' else ''false'')"
| "stringify gap ind (JNumber i) = show_int i"
| "stringify gap ind (JString s) = quote s"
| "stringify gap ind (JArray xs) =
     (if xs = [] then ''[]''
      else ''['' @ (if gap = 0 then [] else CHR 0x0A # replicate (ind + gap) CHR '' '')
        @ intercalate (if gap = 0 then '','' else '','' @ CHR 0x0A # replicate (ind + gap) CHR '' '')
            (map (stringify gap (ind + gap)) xs)
        @ (if gap = 0 then [] else CHR 0x0A # replicate ind CHR '' '') @ '']'')"
| "stringify gap ind (JObject kvs) =
     (if kvs = [] then ''{}''
      else ''{'' @ (if gap = 0 then [] else CHR 0x0A # replicate (ind + gap) CHR '' '')
        @ intercalate (if gap = 0 then '','' else '','' @ CHR 0x0A # replicate (ind + gap) CHR '' '')
            (map (\<lambda>kv. quote (fst kv) @ (if gap = 0 then '':'' else '': '') @ stringify gap (ind + gap) (snd kv)) kvs)
        @ (if gap = 0 then [] else CHR 0x0A # replicate ind CHR '' '') @ ''}'')"


declare stringify.simps [simp del]

definition is_ws :: "char \<Rightarrow> bool" where
  "is_ws c = (c = CHR '' '' \<or> c = CHR 0x09 \<or> c = CHR 0x0A \<or> c = CHR 0x0D)"

definition skip_ws :: "string \<Rightarrow> string" where
  "skip_ws s = dropWhile is_ws s"

definition is_digit :: "char \<Rightarrow> bool" where
  "is_digit c = (48 \<le> (of_char c :: nat) \<and> (of_char c :: nat) \<le> 57)"

definition digit_val :: "char \<Rightarrow> nat" where
  "digit_val c = of_char c - 48"

definition nat_of_digits :: "string \<Rightarrow> nat" where
  "nat_of_digits ds = foldl (\<lambda>a c. 10 * a + digit_val c) 0 ds"

definition parse_number :: "string \<Rightarrow> (int json \<times> string) option" where
  "parse_number s =
     (let neg = (s \<noteq> [] \<and> hd s = CHR ''-'');
          body = (if neg then tl s else s);
          ds = takeWhile is_digit body;
          r = dropWhile is_digit body
      in if ds = [] \<or> (hd ds = CHR ''0'' \<and> length ds > 1) then None
         else if r \<noteq> [] \<and> (hd r = CHR ''.'' \<or> hd r = CHR ''e'' \<or> hd r = CHR ''E'') then None
         else Some (JNumber (if neg then - int (nat_of_digits ds) else int (nat_of_digits ds)), r))"

definition unescape :: "char \<Rightarrow> char option" where
  "unescape c =
     (if c = CHR 0x22 \<or> c = CHR 0x5C \<or> c = CHR ''/'' then Some c
      else if c = CHR ''b'' then Some (CHR 0x08)
      else if c = CHR ''f'' then Some (CHR 0x0C)
      else if c = CHR ''n'' then Some (CHR 0x0A)
      else if c = CHR ''r'' then Some (CHR 0x0D)
      else if c = CHR ''t'' then Some (CHR 0x09)
      else None)"

text \<open>The escape \<^verbatim>\<open>\uXXXX\<close>: the code point of its four hexadecimal digits, and the
  bytes that encode the code point (a surrogate has none).\<close>

definition hex_val :: "char \<Rightarrow> nat option" where
  "hex_val c =
     (let n = (of_char c :: nat) in
      if 48 \<le> n \<and> n \<le> 57 then Some (n - 48)
      else if 97 \<le> n \<and> n \<le> 102 then Some (n - 87)
      else if 65 \<le> n \<and> n \<le> 70 then Some (n - 55)
      else None)"

definition hex4 :: "char \<Rightarrow> char \<Rightarrow> char \<Rightarrow> char \<Rightarrow> nat option" where
  "hex4 a b c d =
     (case (hex_val a, hex_val b, hex_val c, hex_val d) of
        (Some w, Some x, Some y, Some z) \<Rightarrow> Some (4096 * w + 256 * x + 16 * y + z)
      | _ \<Rightarrow> None)"

definition utf8 :: "nat \<Rightarrow> string option" where
  "utf8 n =
     (if n < 128 then Some [char_of n]
      else if n < 2048 then Some [char_of (192 + n div 64), char_of (128 + n mod 64)]
      else if 55296 \<le> n \<and> n < 57344 then None
      else Some [char_of (224 + n div 4096), char_of (128 + (n div 64) mod 64), char_of (128 + n mod 64)])"

fun parse_chars :: "string \<Rightarrow> string \<Rightarrow> (string \<times> string) option" where
  "parse_chars acc [] = None"
| "parse_chars acc (c # r) =
     (if c = CHR 0x22 then Some (acc, r)
      else if c = CHR 0x5C then
        (case r of
           [] \<Rightarrow> None
         | e # r' \<Rightarrow>
             if e = CHR ''u'' then
               (case r' of
                  h1 # h2 # h3 # h4 # r'' \<Rightarrow>
                    (case hex4 h1 h2 h3 h4 of
                       None \<Rightarrow> None
                     | Some n \<Rightarrow>
                         (case utf8 n of None \<Rightarrow> None | Some bs \<Rightarrow> parse_chars (acc @ bs) r''))
                | _ \<Rightarrow> None)
             else (case unescape e of None \<Rightarrow> None | Some d \<Rightarrow> parse_chars (acc @ [d]) r'))
      else if of_char c < (32::nat) then None
      else parse_chars (acc @ [c]) r)"

definition put :: "(string \<times> 'a) list \<Rightarrow> string \<Rightarrow> 'a \<Rightarrow> (string \<times> 'a) list" where
  "put kvs k v =
     (if map_of kvs k = None then kvs @ [(k, v)]
      else map (\<lambda>kv. if fst kv = k then (k, v) else kv) kvs)"

text \<open>A value, the rest of an array after its opening bracket and the rest of an object
  after its opening brace, read by recursive descent; the first argument bounds the number
  of calls.\<close>

function (sequential) parse_value :: "nat \<Rightarrow> string \<Rightarrow> (int json \<times> string) option"
  and parse_elements :: "nat \<Rightarrow> int json list \<Rightarrow> string \<Rightarrow> (int json \<times> string) option"
  and parse_members :: "nat \<Rightarrow> (string \<times> int json) list \<Rightarrow> string \<Rightarrow> (int json \<times> string) option" where
  "parse_value 0 s = None"
| "parse_value (Suc n) s =
     (let t = skip_ws s in
      if take 4 t = ''null'' then Some (JNull, drop 4 t)
      else if take 4 t = ''true'' then Some (JBool True, drop 4 t)
      else if take 5 t = ''false'' then Some (JBool False, drop 5 t)
      else if take 1 t = [CHR 0x22] then
        (case parse_chars [] (drop 1 t) of None \<Rightarrow> None | Some (str, r) \<Rightarrow> Some (JString str, r))
      else if take 1 t = ''['' then
        (if take 1 (skip_ws (drop 1 t)) = '']'' then Some (JArray [], drop 1 (skip_ws (drop 1 t)))
         else parse_elements n [] (drop 1 t))
      else if take 1 t = ''{'' then
        (if take 1 (skip_ws (drop 1 t)) = ''}'' then Some (JObject [], drop 1 (skip_ws (drop 1 t)))
         else parse_members n [] (drop 1 t))
      else parse_number t)"
| "parse_elements 0 acc s = None"
| "parse_elements (Suc n) acc s =
     (case parse_value n s of
        None \<Rightarrow> None
      | Some (v, r) \<Rightarrow>
          (let t = skip_ws r in
           if take 1 t = '','' then parse_elements n (acc @ [v]) (drop 1 t)
           else if take 1 t = '']'' then Some (JArray (acc @ [v]), drop 1 t)
           else None))"
| "parse_members 0 acc s = None"
| "parse_members (Suc n) acc s =
     (let t = skip_ws s in
      if take 1 t \<noteq> [CHR 0x22] then None
      else
        (case parse_chars [] (drop 1 t) of
           None \<Rightarrow> None
         | Some (k, r) \<Rightarrow>
             (if take 1 (skip_ws r) \<noteq> '':'' then None
              else
                (case parse_value n (drop 1 (skip_ws r)) of
                   None \<Rightarrow> None
                 | Some (v, r') \<Rightarrow>
                     (let u = skip_ws r' in
                      if take 1 u = '','' then parse_members n (put acc k v) (drop 1 u)
                      else if take 1 u = ''}'' then Some (JObject (put acc k v), drop 1 u)
                      else None)))))"

  by pat_completeness auto
termination
  by (relation "measure (\<lambda>x. case x of Inl a \<Rightarrow> fst a | Inr (Inl b) \<Rightarrow> fst b | Inr (Inr c) \<Rightarrow> fst c)") auto

definition parse :: "string \<Rightarrow> error + int json" where
  "parse s =
     (case parse_value (Suc (length s)) s of
        None \<Rightarrow> Inl (SyntaxError ''Unexpected token'')
      | Some (v, r) \<Rightarrow> if skip_ws r = [] then Inr v else Inl (SyntaxError ''Unexpected token''))"

definition reference :: "int runtime" where
  "reference =
     \<lparr> JSON_parse = parse,
       JSON_stringify = stringify 0 0,
       JSON_stringify_indent2 = stringify 2 0,
       Number_truthy = (\<lambda>i. i \<noteq> 0),
       Number_toString = show_int,
       Number_of_nat = int \<rparr>"

text \<open>What follows a value inside a text that \<open>stringify\<close> prints without indentation:
  nothing, a comma or a closing bracket.\<close>

definition delimited :: "string \<Rightarrow> bool" where
  "delimited rest = (case rest of [] \<Rightarrow> True | c # cs \<Rightarrow> c = CHR '','' \<or> c = CHR '']'' \<or> c = CHR ''}'')"

section \<open>Strings and regular expressions\<close>

text \<open>
  The string methods and the regular expressions that operation discovery uses.
  White space is what \<^verbatim>\<open>\s\<close> matches and \<^verbatim>\<open>trim\<close> strips: tab, line feed, vertical
  tab, form feed, carriage return, space, and the code points U+00A0, U+1680, U+2000 to
  U+200A, U+2028, U+2029, U+202F, U+205F, U+3000 and U+FEFF, which are two or three bytes
  of the string. \<open>whitespace s\<close> is the number of bytes of the white space character that
  \<open>s\<close> starts with, \<open>0\<close> when it starts with none; \<open>whitespace_end\<close> is the same for the
  character that \<open>s\<close> ends with.
\<close>

definition whitespace_bytes :: "string list" where
  "whitespace_bytes =
     [[CHR 0x09], [CHR 0x0A], [CHR 0x0B], [CHR 0x0C], [CHR 0x0D], [CHR 0x20],
      [CHR 0xC2, CHR 0xA0],
      [CHR 0xE1, CHR 0x9A, CHR 0x80],
      [CHR 0xE2, CHR 0x80, CHR 0x80], [CHR 0xE2, CHR 0x80, CHR 0x81], [CHR 0xE2, CHR 0x80, CHR 0x82],
      [CHR 0xE2, CHR 0x80, CHR 0x83], [CHR 0xE2, CHR 0x80, CHR 0x84], [CHR 0xE2, CHR 0x80, CHR 0x85],
      [CHR 0xE2, CHR 0x80, CHR 0x86], [CHR 0xE2, CHR 0x80, CHR 0x87], [CHR 0xE2, CHR 0x80, CHR 0x88],
      [CHR 0xE2, CHR 0x80, CHR 0x89], [CHR 0xE2, CHR 0x80, CHR 0x8A],
      [CHR 0xE2, CHR 0x80, CHR 0xA8], [CHR 0xE2, CHR 0x80, CHR 0xA9], [CHR 0xE2, CHR 0x80, CHR 0xAF],
      [CHR 0xE2, CHR 0x81, CHR 0x9F],
      [CHR 0xE3, CHR 0x80, CHR 0x80],
      [CHR 0xEF, CHR 0xBB, CHR 0xBF]]"

definition whitespace :: "string \<Rightarrow> nat" where
  "whitespace s =
     (case find (\<lambda>w. take (length w) s = w) whitespace_bytes of None \<Rightarrow> 0 | Some w \<Rightarrow> length w)"

definition whitespace_end :: "string \<Rightarrow> nat" where
  "whitespace_end s =
     (case find (\<lambda>w. length w \<le> length s \<and> drop (length s - length w) s = w) whitespace_bytes of
        None \<Rightarrow> 0
      | Some w \<Rightarrow> length w)"

text \<open>\<^verbatim>\<open>s.trim()\<close>: the white space at the start, then at the end, one character at a
  time; the first argument bounds the number of characters.\<close>

fun trim_start :: "nat \<Rightarrow> string \<Rightarrow> string" where
  "trim_start 0 s = s"
| "trim_start (Suc n) s = (if whitespace s = 0 then s else trim_start n (drop (whitespace s) s))"

fun trim_end :: "nat \<Rightarrow> string \<Rightarrow> string" where
  "trim_end 0 s = s"
| "trim_end (Suc n) s =
     (if whitespace_end s = 0 then s else trim_end n (take (length s - whitespace_end s) s))"

definition trim :: "string \<Rightarrow> string" where
  "trim s = trim_end (length s) (trim_start (length s) s)"

text \<open>\<^verbatim>\<open>s.split(c)\<close> for a separator of one character.\<close>

fun split :: "char \<Rightarrow> string \<Rightarrow> string list" where
  "split sep [] = [[]]"
| "split sep (c # cs) =
     (if c = sep then [] # split sep cs
      else (case split sep cs of [] \<Rightarrow> [[c]] | x # xs \<Rightarrow> (c # x) # xs))"

text \<open>\<^verbatim>\<open>s.includes(sub)\<close>.\<close>

fun includes_str :: "string \<Rightarrow> string \<Rightarrow> bool" where
  "includes_str [] sub = (sub = [])"
| "includes_str (c # cs) sub = (take (length sub) (c # cs) = sub \<or> includes_str cs sub)"

text \<open>
  Regular expressions, as far as the source uses them: character classes, \<^verbatim>\<open>\s\<close>,
  sequence, alternative, the greedy star and capturing groups. \<^verbatim>\<open>r+\<close> is
  \<open>one_or_more r\<close>. A class matches one byte; none of the source's classes has a character
  outside ASCII, and a negated one takes the bytes of such a character one after the other.
\<close>

datatype chars = Single char | Between char char

fun in_chars :: "char \<Rightarrow> chars \<Rightarrow> bool" where
  "in_chars c (Single d) = (c = d)"
| "in_chars c (Between lo hi) = ((of_char lo :: nat) \<le> of_char c \<and> (of_char c :: nat) \<le> of_char hi)"

datatype regex =
    REmpty
  | RIn "chars list"
  | RNotIn "chars list"
  | RSpace
  | RSeq regex regex
  | RAlt regex regex
  | RStar regex
  | RGroup regex

text \<open>
  A backtracking matcher. A state is the input that is left and the groups captured so
  far; \<open>matches n r st\<close> lists the states in which a match of \<open>r\<close> from \<open>st\<close> can end, in the
  order in which backtracking tries them (longest first for a star, left first for an
  alternative). An iteration of a star must consume input; \<open>n\<close> bounds the iterations.
  The groups of the source's expressions are neither nested nor repeated, so a group is
  numbered by the order in which it closes.
\<close>

function (sequential) matches :: "nat \<Rightarrow> regex \<Rightarrow> string \<times> string list \<Rightarrow> (string \<times> string list) list"
  and match_all :: "nat \<Rightarrow> regex \<Rightarrow> (string \<times> string list) list \<Rightarrow> (string \<times> string list) list"
  and match_star :: "nat \<Rightarrow> regex \<Rightarrow> nat \<Rightarrow> (string \<times> string list) list \<Rightarrow> (string \<times> string list) list" where
  "matches n REmpty st = [st]"
| "matches n (RIn cs) st =
     (case fst st of
        [] \<Rightarrow> []
      | c # rest \<Rightarrow> if list_ex (in_chars c) cs then [(rest, snd st)] else [])"
| "matches n (RNotIn cs) st =
     (case fst st of
        [] \<Rightarrow> []
      | c # rest \<Rightarrow> if list_ex (in_chars c) cs then [] else [(rest, snd st)])"
| "matches n RSpace st =
     (if whitespace (fst st) = 0 then [] else [(drop (whitespace (fst st)) (fst st), snd st)])"
| "matches n (RSeq a b) st = match_all n b (matches n a st)"
| "matches n (RAlt a b) st = matches n a st @ matches n b st"
| "matches 0 (RStar r) st = [st]"
| "matches (Suc n) (RStar r) st = match_star n r (length (fst st)) (matches (Suc n) r st) @ [st]"
| "matches n (RGroup r) st =
     map (\<lambda>e. (fst e, snd e @ [take (length (fst st) - length (fst e)) (fst st)])) (matches n r st)"
| "match_all n r [] = []"
| "match_all n r (st # sts) = matches n r st @ match_all n r sts"
| "match_star n r len [] = []"
| "match_star n r len (st # sts) =
     (if length (fst st) < len then matches n (RStar r) st else []) @ match_star n r len sts"
  by pat_completeness auto
termination
  by (relation "inv_image (less_than <*lex*> less_than <*lex*> less_than)
        (\<lambda>x. case x of
           Inl a \<Rightarrow> (fst a, size (fst (snd a)), 0)
         | Inr (Inl b) \<Rightarrow> (fst b, size (fst (snd b)), Suc (length (snd (snd b))))
         | Inr (Inr c) \<Rightarrow> (fst c, Suc (size (fst (snd c))), Suc (length (snd (snd (snd c))))))")
     auto

declare matches.simps [simp del]

text \<open>\<^verbatim>\<open>s.match(r)\<close> without the \<^verbatim>\<open>g\<close> flag: the groups of the leftmost match, found by
  trying each start in turn.\<close>

fun match_from :: "regex \<Rightarrow> string \<Rightarrow> string list option" where
  "match_from r [] = (case matches 1 r ([], []) of [] \<Rightarrow> None | e # es \<Rightarrow> Some (snd e))"
| "match_from r (c # cs) =
     (case matches (Suc (length (c # cs))) r (c # cs, []) of
        [] \<Rightarrow> match_from r cs
      | e # es \<Rightarrow> Some (snd e))"

text \<open>\<^verbatim>\<open>/^r$/.test(s)\<close>: some match of \<open>r\<close> from the start ends at the end.\<close>

definition test_whole :: "regex \<Rightarrow> string \<Rightarrow> bool" where
  "test_whole r s = list_ex (\<lambda>e. fst e = []) (matches (Suc (length s)) r (s, []))"

fun seq :: "regex list \<Rightarrow> regex" where
  "seq [] = REmpty"
| "seq [r] = r"
| "seq (r # rs) = RSeq r (seq rs)"

definition one_or_more :: "regex \<Rightarrow> regex" where
  "one_or_more r = RSeq r (RStar r)"

definition lit :: "string \<Rightarrow> regex" where
  "lit s = seq (map (\<lambda>c. RIn [Single c]) s)"

section \<open>Operation discovery\<close>

record OperationInfo =
  operation :: string
  params :: string
  description :: string

definition query :: string where
  "query = ''What operations are available? List all available operations with their names and parameters in table format.''"

text \<open>The two table formats of \<^verbatim>\<open>fetchOperations\<close> (\<^verbatim>\<open>agent-card.ts\<close>):
  \<^verbatim>\<open>/\|\s*`([^`]+)`\s*\|\s*([^|]+)\s*\|\s*([^|]+)\s*\|/\<close> and
  \<^verbatim>\<open>/\|\s*(?:\*\*[^*]+\*\*|)\s*\|\s*([a-z_]+)\s*\|\s*([^|]+)\s*\|/\<close>.\<close>

definition format1 :: regex where
  "format1 =
     seq [lit ''|'', RStar RSpace, lit [CHR 0x60], RGroup (one_or_more (RNotIn [Single (CHR 0x60)])),
          lit [CHR 0x60], RStar RSpace, lit ''|'', RStar RSpace,
          RGroup (one_or_more (RNotIn [Single CHR ''|''])), RStar RSpace, lit ''|'',
          RStar RSpace, RGroup (one_or_more (RNotIn [Single CHR ''|''])), RStar RSpace,
          lit ''|'']"

definition format2 :: regex where
  "format2 =
     seq [lit ''|'', RStar RSpace,
          RAlt (seq [lit ''**'', one_or_more (RNotIn [Single CHR ''*'']), lit ''**'']) REmpty,
          RStar RSpace, lit ''|'', RStar RSpace,
          RGroup (one_or_more (RIn [Between CHR ''a'' CHR ''z'', Single CHR ''_''])), RStar RSpace,
          lit ''|'', RStar RSpace, RGroup (one_or_more (RNotIn [Single CHR ''|''])),
          RStar RSpace, lit ''|'']"

text \<open>The body of the \<^verbatim>\<open>for\<close> loop of \<^verbatim>\<open>fetchOperations\<close> on one line: the descriptor it
  pushes, if any.\<close>

definition parse_line :: "string \<Rightarrow> OperationInfo option" where
  "parse_line line =
     (if includes_str line ''---'' \<or> includes_str line ''**Operation**'' \<or> includes_str line ''**Category**''
      then None
      else
        (case match_from format1 line of
           Some m \<Rightarrow>
             (case m of
                m1 # m2 # m3 # others \<Rightarrow>
                  Some \<lparr> operation = trim m1, params = trim m2, description = trim m3 \<rparr>
              | _ \<Rightarrow> None)
         | None \<Rightarrow>
             (case match_from format2 line of
                Some (m1 # m2 # others) \<Rightarrow>
                  if m1 \<noteq> []
                  then Some \<lparr> operation = trim m1, params = trim m2, description = [] \<rparr>
                  else None
              | _ \<Rightarrow> None)))"

definition parse_table :: "string \<Rightarrow> OperationInfo list" where
  "parse_table reply = List.map_filter parse_line (split (CHR 0x0A) reply)"

text \<open>\<^verbatim>\<open>data?.data?.reply ?? data?.reply ?? ""\<close>.\<close>

definition reply_of :: "'n json \<Rightarrow> 'n json" where
  "reply_of d =
     nullish (GetOpt (GetOpt (Some d) ''data'') ''reply'')
       (nullish (GetOpt (Some d) ''reply'') (JString []))"

text \<open>\<^verbatim>\<open>fetchOperations\<close>: whatever is thrown inside is caught and gives the empty list.\<close>

definition fetchOperations ::
  "'n runtime \<Rightarrow> 'n transport \<Rightarrow> client \<Rightarrow> OperationInfo list \<times> client" where
  "fetchOperations rt fetch c =
     (case sendText rt fetch query None c of
        (Inl e, c') \<Rightarrow> ([], c')
      | (Inr task, c') \<Rightarrow>
          (case extractData rt task of
             Inl e \<Rightarrow> ([], c')
           | Inr d \<Rightarrow>
               (case reply_of d of
                  JString reply \<Rightarrow> if reply = [] then ([], c') else (parse_table reply, c')
                | other \<Rightarrow> ([], c'))))"

text \<open>
  \<^verbatim>\<open>fetchOperationsWithDisplay\<close> (\<^verbatim>\<open>agent.ts\<close>), the discovery the agent runs. The name it
  accepts is tested against \<^verbatim>\<open>/^[a-z][a-z_]*$/\<close>.
\<close>

definition operation_name :: regex where
  "operation_name =
     RSeq (RIn [Between CHR ''a'' CHR ''z'']) (RStar (RIn [Between CHR ''a'' CHR ''z'', Single CHR ''_'']))"

definition strip_backticks :: "string \<Rightarrow> string" where
  "strip_backticks s = filter (\<lambda>c. c \<noteq> CHR 0x60) s"

definition display_line :: "string \<Rightarrow> OperationInfo option" where
  "display_line line =
     (if includes_str line ''---'' \<or> includes_str line ''Operation'' \<or> includes_str line ''**'' then None
      else if \<not> includes_str line ''|'' then None
      else
        (let cells = filter (\<lambda>c. c \<noteq> []) (map trim (split CHR ''|'' line)) in
         if length cells < 2 then None
         else
           (let name = strip_backticks (cells ! 0);
                ps = strip_backticks (cells ! 1);
                d = (if length cells > 2 then cells ! 2 else [])
            in if test_whole operation_name name
               then Some \<lparr> operation = name,
                           params = (if ps = ''{}'' \<or> ps = ''-'' then [] else ps),
                           description = d \<rparr>
               else None)))"

text \<open>\<^verbatim>\<open>a || b\<close>, and the reply it parses:
  \<^verbatim>\<open>parsed?.data?.reply || parsed?.reply || ""\<close> when the text parses, the empty string
  when it does not (the data is then the raw text, which has no property \<^verbatim>\<open>data\<close>).\<close>

definition or_else :: "'n runtime \<Rightarrow> 'n json option \<Rightarrow> 'n json \<Rightarrow> 'n json" where
  "or_else rt a b = (case a of None \<Rightarrow> b | Some v \<Rightarrow> if ToBoolean rt (Some v) then v else b)"

definition display_reply :: "'n runtime \<Rightarrow> A2ATask \<Rightarrow> 'n json" where
  "display_reply rt task =
     (case textPart task of
        None \<Rightarrow> JString []
      | Some p \<Rightarrow>
          if part_text p = [] then JString []
          else
            (case JSON_parse rt (part_text p) of
               Inl e \<Rightarrow> JString []
             | Inr parsed \<Rightarrow>
                 or_else rt (GetOpt (GetOpt (Some parsed) ''data'') ''reply'')
                   (or_else rt (GetOpt (Some parsed) ''reply'') (JString []))))"

text \<open>The call to \<^verbatim>\<open>sendText\<close> is outside any \<^verbatim>\<open>try\<close>, and \<^verbatim>\<open>reply.split\<close> throws when
  the reply is not a string.\<close>

definition fetchOperationsWithDisplay ::
  "'n runtime \<Rightarrow> 'n transport \<Rightarrow> client \<Rightarrow> (error + OperationInfo list) \<times> client" where
  "fetchOperationsWithDisplay rt fetch c =
     (case sendText rt fetch query None c of
        (Inl e, c') \<Rightarrow> (Inl e, c')
      | (Inr task, c') \<Rightarrow>
          (case display_reply rt task of
             JString reply \<Rightarrow> (Inr (List.map_filter display_line (split (CHR 0x0A) reply)), c')
           | other \<Rightarrow> (Inl (TypeError ''reply.split is not a function''), c')))"


section \<open>Example inputs\<close>

text \<open>A completed task whose only artifact has a part of another kind and then a text
  part with the given text; a transport that answers every request with the same
  response; responses of the kinds the properties below speak of.\<close>

definition text_task :: "string \<Rightarrow> A2ATask" where
  "text_task t =
     \<lparr> task_id = ''task-1'', contextId = ''ctx-1'',
       status = \<lparr> state = ''completed'', timestamp = ''2026-01-01T00:00:00Z'' \<rparr>,
       artifacts = Some [\<lparr> artifactId = ''artifact-1'', artifact_name = ''response'',
                          parts = [\<lparr> kind = ''data'', part_text = ''ignored'' \<rparr>,
                                   \<lparr> kind = ''text'', part_text = t \<rparr>] \<rparr>],
       history = [], metadata = None \<rparr>"

definition respond :: "'n response \<Rightarrow> 'n transport" where
  "respond res = (\<lambda>req. Inr res)"

definition http_response :: "nat \<Rightarrow> string \<Rightarrow> 'n JsonRpcResponse \<Rightarrow> 'n response" where
  "http_response st t r = \<lparr> http_status = st, body_text = Inr t, body_json = Inr r \<rparr>"

definition error_and_result :: "int JsonRpcResponse" where
  "error_and_result =
     \<lparr> jsonrpc = ''2.0'', result = Some (text_task ''done''),
       error = Some \<lparr> code = - 32601, message = ''Method not found'' \<rparr>, rpc_id = Inr 1 \<rparr>"

definition neither_result_nor_error :: "int JsonRpcResponse" where
  "neither_result_nor_error = \<lparr> jsonrpc = ''2.0'', result = None, error = None, rpc_id = Inr 1 \<rparr>"

definition result_only :: "A2ATask \<Rightarrow> int JsonRpcResponse" where
  "result_only task = \<lparr> jsonrpc = ''2.0'', result = Some task, error = None, rpc_id = Inr 1 \<rparr>"



definition localhost :: client where
  "localhost = new_client ''http://localhost:3000/''"

definition create_namespace :: "int json" where
  "create_namespace = JObject [(''name'', JString ''demo''), (''allocatedCores'', JNumber 2)]"

text \<open>The tool calls of a response that the loop answers (those of the two tools of the
  agent), and the calls that a list of results answers, both by the id of the call.\<close>

fun tool_call_ids :: "'n content_block list \<Rightarrow> string list" where
  "tool_call_ids [] = []"
| "tool_call_ids (ToolUseBlock b (declare_plan title steps) # rest) = b # tool_call_ids rest"
| "tool_call_ids (ToolUseBlock b (a2a_call reflection narration reason op ps) # rest) =
     b # tool_call_ids rest"
| "tool_call_ids (block # rest) = tool_call_ids rest"

fun tool_result_ids :: "'n content_block list \<Rightarrow> string list" where
  "tool_result_ids [] = []"
| "tool_result_ids (ToolResultBlock b r # rest) = b # tool_result_ids rest"
| "tool_result_ids (block # rest) = tool_result_ids rest"

text \<open>An inference provider that plays a script: its answer to a conversation with \<open>k\<close>
  assistant turns is the \<open>k\<close>-th message of the script.\<close>

definition scripted :: "'n api_message list \<Rightarrow> 'n provider" where
  "scripted script ps =
     (case ps of
        CreateParams m n sys tools msgs \<Rightarrow>
          (let k = length (filter (\<lambda>msg. role msg = ''assistant'') msgs)
           in if k < length script then Inr (script ! k) else Inl (Error ''Connection error.'')))"

definition plan_then_create :: "int api_message" where
  "plan_then_create =
     \<lparr> blocks = [TextBlock ''I will create the namespace.'',
                 ToolUseBlock ''toolu_1'' (declare_plan ''Create namespace'' [''create demo'']),
                 ToolUseBlock ''toolu_2''
                   (a2a_call None ''Creating the namespace'' (Some ''The user asked for it'')
                      ''namespace_create'' (Some create_namespace))],
       stop_reason = Some ''tool_use'' \<rparr>"

definition final_answer :: "int api_message" where
  "final_answer = \<lparr> blocks = [TextBlock ''Done.''], stop_reason = Some ''end_turn'' \<rparr>"

definition start :: "int world" where
  "start =
     \<lparr> a2aClient = localhost,
       messages = [\<lparr> role = ''user'', content = Text ''create a namespace named demo with 2 cores'' \<rparr>],
       inferences = [] \<rparr>"

definition namespace_created :: A2ATask where
  \<open>namespace_created =
     text_task ''{"data":{"id":"ns-1","shortId":"ns1","name":"demo"}}''
       \<lparr> metadata := Some \<lparr> lowBalanceWarning =
           Some \<lparr> balance = ''0.50'', warning_message = ''Balance is low'' \<rparr> \<rparr> \<rparr>\<close>

definition namespace_data :: "int json" where
  "namespace_data =
     JObject [(''data'', JObject [(''id'', JString ''ns-1''), (''shortId'', JString ''ns1''),
                                  (''name'', JString ''demo'')])]"

section \<open>Reading a task's payload: properties\<close>

lemma Get_GetOpt: "v \<noteq> JNull \<Longrightarrow> Get v k = Inr (GetOpt (Some v) k)"
  by (cases v) simp_all

lemma textPart_text_task: "textPart (text_task t) = Some \<lparr> kind = ''text'', part_text = t \<rparr>"
  by (simp add: textPart_def text_task_def)

lemma unwrap_parsed:
  assumes "JSON_parse rt t = Inr parsed" and "parsed \<noteq> JNull" and "\<And>s. parsed \<noteq> JString s"
  shows "unwrap rt t =
     (if ToBoolean rt (GetOpt (Some parsed) ''message'') then String rt (GetOpt (Some parsed) ''message'')
      else if ToBoolean rt (GetOpt (GetOpt (Some parsed) ''data'') ''reply'')
      then String rt (GetOpt (GetOpt (Some parsed) ''data'') ''reply'')
      else if ToBoolean rt (GetOpt (GetOpt (Some parsed) ''data'') ''message'')
      then String rt (GetOpt (GetOpt (Some parsed) ''data'') ''message'')
      else (case GetOpt (Some parsed) ''data'' of
              Some (JString d) \<Rightarrow> if d \<noteq> [] then Inr d else Inr (JSON_stringify_indent2 rt parsed)
            | _ \<Rightarrow> Inr (JSON_stringify_indent2 rt parsed)))"
  using assms by (cases parsed) (auto simp: unwrap_def)

text \<open>
  C1 (as amended). \<^verbatim>\<open>extractText\<close> applies the unwrap priority in order, and a rule
  matches when its value is truthy, not when its field is present. If the task has no
  artifacts or no text part, the result is the sentinel. For a text part with non-empty
  text: if the text does not parse, the raw text is returned; a parsed string is returned
  as it is; for any other parsed value but \<^verbatim>\<open>null\<close>, a truthy top-level \<^verbatim>\<open>message\<close> is
  stringified and returned, otherwise a truthy \<^verbatim>\<open>data.reply\<close>, then a truthy
  \<^verbatim>\<open>data.message\<close>, otherwise a non-empty string \<^verbatim>\<open>data\<close>, otherwise the pretty-printed
  JSON of the whole parsed value. When stringifying the value of one of the three rules
  throws, the raw text is returned.
\<close>

theorem extractText_priority:
  fixes rt :: "'n runtime"
  shows
  "(textPart task = None \<longrightarrow> extractText rt task = Inr no_response)
   \<and> (textPart task = Some p \<and> part_text p \<noteq> [] \<and> JSON_parse rt (part_text p) = Inl e
        \<longrightarrow> extractText rt task = Inr (part_text p))
   \<and> (textPart task = Some p \<and> part_text p \<noteq> [] \<and> JSON_parse rt (part_text p) = Inr (JString s)
        \<longrightarrow> extractText rt task = Inr s)
   \<and> (textPart task = Some p \<and> part_text p \<noteq> [] \<and> JSON_parse rt (part_text p) = Inr parsed
        \<and> parsed \<noteq> JNull \<and> (\<forall>s'. parsed \<noteq> JString s')
        \<longrightarrow>
          (ToBoolean rt (GetOpt (Some parsed) ''message'')
           \<longrightarrow> (String rt (GetOpt (Some parsed) ''message'') = Inr s \<longrightarrow> extractText rt task = Inr s)
             \<and> (String rt (GetOpt (Some parsed) ''message'') = Inl err
                  \<longrightarrow> extractText rt task = Inr (part_text p)))
        \<and> (\<not> ToBoolean rt (GetOpt (Some parsed) ''message'')
             \<and> ToBoolean rt (GetOpt (GetOpt (Some parsed) ''data'') ''reply'')
           \<longrightarrow> (String rt (GetOpt (GetOpt (Some parsed) ''data'') ''reply'') = Inr s
                  \<longrightarrow> extractText rt task = Inr s)
             \<and> (String rt (GetOpt (GetOpt (Some parsed) ''data'') ''reply'') = Inl err
                  \<longrightarrow> extractText rt task = Inr (part_text p)))
        \<and> (\<not> ToBoolean rt (GetOpt (Some parsed) ''message'')
             \<and> \<not> ToBoolean rt (GetOpt (GetOpt (Some parsed) ''data'') ''reply'')
             \<and> ToBoolean rt (GetOpt (GetOpt (Some parsed) ''data'') ''message'')
           \<longrightarrow> (String rt (GetOpt (GetOpt (Some parsed) ''data'') ''message'') = Inr s
                  \<longrightarrow> extractText rt task = Inr s)
             \<and> (String rt (GetOpt (GetOpt (Some parsed) ''data'') ''message'') = Inl err
                  \<longrightarrow> extractText rt task = Inr (part_text p)))
        \<and> (\<not> ToBoolean rt (GetOpt (Some parsed) ''message'')
             \<and> \<not> ToBoolean rt (GetOpt (GetOpt (Some parsed) ''data'') ''reply'')
             \<and> \<not> ToBoolean rt (GetOpt (GetOpt (Some parsed) ''data'') ''message'')
           \<longrightarrow>
             (GetOpt (Some parsed) ''data'' = Some (JString s) \<and> s \<noteq> []
                \<longrightarrow> extractText rt task = Inr s)
           \<and> ((\<forall>d. GetOpt (Some parsed) ''data'' = Some (JString d) \<longrightarrow> d = [])
                \<longrightarrow> extractText rt task = Inr (JSON_stringify_indent2 rt parsed))))"
proof (intro conjI impI)
  assume "textPart task = None"
  then show "extractText rt task = Inr no_response" by (simp add: extractText_def)
next
  assume "textPart task = Some p \<and> part_text p \<noteq> [] \<and> JSON_parse rt (part_text p) = Inl e"
  then show "extractText rt task = Inr (part_text p)" by (simp add: extractText_def unwrap_def)
next
  assume "textPart task = Some p \<and> part_text p \<noteq> [] \<and> JSON_parse rt (part_text p) = Inr (JString s)"
  then show "extractText rt task = Inr s" by (simp add: extractText_def unwrap_def)
next
  assume a: "textPart task = Some p \<and> part_text p \<noteq> [] \<and> JSON_parse rt (part_text p) = Inr parsed
        \<and> parsed \<noteq> JNull \<and> (\<forall>s'. parsed \<noteq> JString s')"
  then have u: "unwrap rt (part_text p) =
     (if ToBoolean rt (GetOpt (Some parsed) ''message'') then String rt (GetOpt (Some parsed) ''message'')
      else if ToBoolean rt (GetOpt (GetOpt (Some parsed) ''data'') ''reply'')
      then String rt (GetOpt (GetOpt (Some parsed) ''data'') ''reply'')
      else if ToBoolean rt (GetOpt (GetOpt (Some parsed) ''data'') ''message'')
      then String rt (GetOpt (GetOpt (Some parsed) ''data'') ''message'')
      else (case GetOpt (Some parsed) ''data'' of
              Some (JString d) \<Rightarrow> if d \<noteq> [] then Inr d else Inr (JSON_stringify_indent2 rt parsed)
            | _ \<Rightarrow> Inr (JSON_stringify_indent2 rt parsed)))"
    by (intro unwrap_parsed) auto
  from a have e: "extractText rt task = (case unwrap rt (part_text p) of Inl e \<Rightarrow> Inr (part_text p) | Inr s \<Rightarrow> Inr s)"
    by (simp add: extractText_def)
  {
    assume m: "ToBoolean rt (GetOpt (Some parsed) ''message'')"
    {
      assume "String rt (GetOpt (Some parsed) ''message'') = Inr s"
      with m show "extractText rt task = Inr s" by (simp add: e u)
    next
      assume "String rt (GetOpt (Some parsed) ''message'') = Inl err"
      with m show "extractText rt task = Inr (part_text p)" by (simp add: e u)
    }
  next
    assume m: "\<not> ToBoolean rt (GetOpt (Some parsed) ''message'')
             \<and> ToBoolean rt (GetOpt (GetOpt (Some parsed) ''data'') ''reply'')"
    {
      assume "String rt (GetOpt (GetOpt (Some parsed) ''data'') ''reply'') = Inr s"
      with m show "extractText rt task = Inr s" by (simp add: e u)
    next
      assume "String rt (GetOpt (GetOpt (Some parsed) ''data'') ''reply'') = Inl err"
      with m show "extractText rt task = Inr (part_text p)" by (simp add: e u)
    }
  next
    assume m: "\<not> ToBoolean rt (GetOpt (Some parsed) ''message'')
             \<and> \<not> ToBoolean rt (GetOpt (GetOpt (Some parsed) ''data'') ''reply'')
             \<and> ToBoolean rt (GetOpt (GetOpt (Some parsed) ''data'') ''message'')"
    {
      assume "String rt (GetOpt (GetOpt (Some parsed) ''data'') ''message'') = Inr s"
      with m show "extractText rt task = Inr s" by (simp add: e u)
    next
      assume "String rt (GetOpt (GetOpt (Some parsed) ''data'') ''message'') = Inl err"
      with m show "extractText rt task = Inr (part_text p)" by (simp add: e u)
    }
  next
    assume b: "\<not> ToBoolean rt (GetOpt (Some parsed) ''message'')
             \<and> \<not> ToBoolean rt (GetOpt (GetOpt (Some parsed) ''data'') ''reply'')
             \<and> \<not> ToBoolean rt (GetOpt (GetOpt (Some parsed) ''data'') ''message'')"
    {
      assume "GetOpt (Some parsed) ''data'' = Some (JString s) \<and> s \<noteq> []"
      with b show "extractText rt task = Inr s" by (simp add: e u)
    next
      assume "\<forall>d. GetOpt (Some parsed) ''data'' = Some (JString d) \<longrightarrow> d = []"
      with b show "extractText rt task = Inr (JSON_stringify_indent2 rt parsed)"
        by (simp add: e u split: option.splits json.splits)
    }
  }
qed


lemma parse_plain: \<open>parse ''plain'' = Inl (SyntaxError ''Unexpected token'')\<close>
  by code_simp

lemma parse_hello: \<open>parse ''"hello"'' = Inr (JString ''hello'')\<close>
  by code_simp

lemma parse_message: \<open>parse ''{"message":"B"}'' = Inr (JObject [(''message'', JString ''B'')])\<close>
  by code_simp

lemma parse_reply_message:
  \<open>parse ''{"data":{"reply":"A","message":"B"}}''
     = Inr (JObject [(''data'', JObject [(''reply'', JString ''A''), (''message'', JString ''B'')])])\<close>
  by code_simp

lemma parse_data_message:
  \<open>parse ''{"data":{"message":"B"}}'' = Inr (JObject [(''data'', JObject [(''message'', JString ''B'')])])\<close>
  by code_simp

lemma parse_data_string: \<open>parse ''{"data":"D"}'' = Inr (JObject [(''data'', JString ''D'')])\<close>
  by code_simp

lemma parse_other: \<open>parse ''{"x":1}'' = Inr (JObject [(''x'', JNumber 1)])\<close>
  by code_simp

lemma stringify_other:
  \<open>stringify 2 0 (JObject [(''x'', JNumber 1)]) = ''{'' @ [CHR 0x0A] @ ''  "x": 1'' @ [CHR 0x0A] @ ''}''\<close>
  by code_simp

lemma parse_empty_message:
  \<open>parse ''{"message":"","data":{"reply":"A"}}''
     = Inr (JObject [(''message'', JString []), (''data'', JObject [(''reply'', JString ''A'')])])\<close>
  by code_simp

lemma parse_null: \<open>parse ''null'' = Inr JNull\<close>
  by code_simp

lemma parse_message_object:
  \<open>parse ''{"message":{"toString":1}}'' = Inr (JObject [(''message'', JObject [(''toString'', JNumber 1)])])\<close>
  by code_simp

text \<open>The rules of C1 on the examples of the specification, in the reference runtime, and
  on a \<^verbatim>\<open>message\<close> that cannot be stringified.\<close>

theorem extractText_priority_witness:
  \<open>extractText reference (text_task ''x'' \<lparr> artifacts := None \<rparr>) = Inr no_response
   \<and> extractText reference (text_task ''plain'') = Inr ''plain''
   \<and> extractText reference (text_task ''"hello"'') = Inr ''hello''
   \<and> extractText reference (text_task ''{"message":"B"}'') = Inr ''B''
   \<and> extractText reference (text_task ''{"data":{"reply":"A","message":"B"}}'') = Inr ''A''
   \<and> extractText reference (text_task ''{"data":{"message":"B"}}'') = Inr ''B''
   \<and> extractText reference (text_task ''{"data":"D"}'') = Inr ''D''
   \<and> extractText reference (text_task ''{"x":1}'')
       = Inr (''{'' @ [CHR 0x0A] @ ''  "x": 1'' @ [CHR 0x0A] @ ''}'')
   \<and> extractText reference (text_task ''{"message":{"toString":1}}'') = Inr ''{"message":{"toString":1}}''\<close>
proof -
  note T = extractText_priority [where rt = reference]
  have 1: "extractText reference (text_task ''x'' \<lparr> artifacts := None \<rparr>) = Inr no_response"
    using T [where task = "text_task ''x'' \<lparr> artifacts := None \<rparr>"]
    by (simp add: textPart_def)
  have 2: "extractText reference (text_task ''plain'') = Inr ''plain''"
    using T [where task = "text_task ''plain''" and p = "\<lparr> kind = ''text'', part_text = ''plain'' \<rparr>"
               and e = "SyntaxError ''Unexpected token''"]
    by (simp add: textPart_text_task reference_def parse_plain)
  have 3: \<open>extractText reference (text_task ''"hello"'') = Inr ''hello''\<close>
    using T [where task = \<open>text_task ''"hello"''\<close> and p = \<open>\<lparr> kind = ''text'', part_text = ''"hello"'' \<rparr>\<close>
               and s = "''hello''"]
    by (simp add: textPart_text_task reference_def parse_hello)
  have 4: \<open>extractText reference (text_task ''{"message":"B"}'') = Inr ''B''\<close>
    using T [where task = \<open>text_task ''{"message":"B"}''\<close>
               and p = \<open>\<lparr> kind = ''text'', part_text = ''{"message":"B"}'' \<rparr>\<close>
               and parsed = "JObject [(''message'', JString ''B'')]" and s = "''B''"]
    by (simp add: textPart_text_task reference_def parse_message)
  have 5: \<open>extractText reference (text_task ''{"data":{"reply":"A","message":"B"}}'') = Inr ''A''\<close>
    using T [where task = \<open>text_task ''{"data":{"reply":"A","message":"B"}}''\<close>
               and p = \<open>\<lparr> kind = ''text'', part_text = ''{"data":{"reply":"A","message":"B"}}'' \<rparr>\<close>
               and parsed = "JObject [(''data'', JObject [(''reply'', JString ''A''), (''message'', JString ''B'')])]"
               and s = "''A''"]
    by (simp add: textPart_text_task reference_def parse_reply_message)
  have 6: \<open>extractText reference (text_task ''{"data":{"message":"B"}}'') = Inr ''B''\<close>
    using T [where task = \<open>text_task ''{"data":{"message":"B"}}''\<close>
               and p = \<open>\<lparr> kind = ''text'', part_text = ''{"data":{"message":"B"}}'' \<rparr>\<close>
               and parsed = "JObject [(''data'', JObject [(''message'', JString ''B'')])]"
               and s = "''B''"]
    by (simp add: textPart_text_task reference_def parse_data_message)
  have 7: \<open>extractText reference (text_task ''{"data":"D"}'') = Inr ''D''\<close>
    using T [where task = \<open>text_task ''{"data":"D"}''\<close>
               and p = \<open>\<lparr> kind = ''text'', part_text = ''{"data":"D"}'' \<rparr>\<close>
               and parsed = "JObject [(''data'', JString ''D'')]" and s = "''D''"]
    by (simp add: textPart_text_task reference_def parse_data_string)
  have 8: \<open>extractText reference (text_task ''{"x":1}'')
       = Inr (''{'' @ [CHR 0x0A] @ ''  "x": 1'' @ [CHR 0x0A] @ ''}'')\<close>
    using T [where task = \<open>text_task ''{"x":1}''\<close>
               and p = \<open>\<lparr> kind = ''text'', part_text = ''{"x":1}'' \<rparr>\<close>
               and parsed = "JObject [(''x'', JNumber 1)]"]
    by (simp add: textPart_text_task reference_def parse_other stringify_other)
  have 9: \<open>extractText reference (text_task ''{"message":{"toString":1}}'') = Inr ''{"message":{"toString":1}}''\<close>
    using T [where task = \<open>text_task ''{"message":{"toString":1}}''\<close>
               and p = \<open>\<lparr> kind = ''text'', part_text = ''{"message":{"toString":1}}'' \<rparr>\<close>
               and parsed = "JObject [(''message'', JObject [(''toString'', JNumber 1)])]"
               and err = "TypeError ''Cannot convert object to primitive value''"]
    by (simp add: textPart_text_task reference_def parse_message_object)
  from 1 2 3 4 5 6 7 8 9 show ?thesis by blast
qed

text \<open>
  C1 as stated fails: in \<^verbatim>\<open>{"message":"","data":{"reply":"A"}}\<close> the top-level field
  \<^verbatim>\<open>message\<close> is present and stringifies to the empty string, but the empty string is
  falsy, the rule is skipped and \<^verbatim>\<open>data.reply\<close> is returned.
\<close>

theorem extractText_priority_counterexample:
  \<open>JSON_parse reference ''{"message":"","data":{"reply":"A"}}''
     = Inr (JObject [(''message'', JString []), (''data'', JObject [(''reply'', JString ''A'')])])
   \<and> GetOpt (Some (JObject [(''message'', JString []), (''data'', JObject [(''reply'', JString ''A'')])])) ''message''
     = Some (JString [])
   \<and> String reference (Some (JString [])) = Inr []
   \<and> extractText reference (text_task ''{"message":"","data":{"reply":"A"}}'') = Inr ''A''
   \<and> extractText reference (text_task ''{"message":"","data":{"reply":"A"}}'') \<noteq> Inr []\<close>
  by (simp add: reference_def parse_empty_message extractText_def unwrap_def textPart_text_task)

text \<open>
  C9. \<^verbatim>\<open>extractText\<close> never throws: on every task it returns a string. When the text
  parses to \<^verbatim>\<open>null\<close>, reading \<^verbatim>\<open>parsed.message\<close> throws a TypeError inside the
  \<^verbatim>\<open>try\<close> block, the \<^verbatim>\<open>catch\<close> takes it, and the raw text is returned.
\<close>

theorem extractText_total:
  fixes rt :: "'n runtime"
  shows "(\<exists>s. extractText rt task = Inr s)
    \<and> (textPart task = Some p \<and> part_text p \<noteq> [] \<and> JSON_parse rt (part_text p) = Inr JNull
         \<longrightarrow> (\<exists>m. unwrap rt (part_text p) = Inl (TypeError m))
             \<and> extractText rt task = Inr (part_text p))"
  by (auto simp: extractText_def unwrap_def split: option.splits sum.splits)

theorem extractText_total_witness:
  "textPart (text_task ''null'') = Some \<lparr> kind = ''text'', part_text = ''null'' \<rparr>
   \<and> JSON_parse reference ''null'' = Inr JNull
   \<and> (\<exists>m. unwrap reference ''null'' = Inl (TypeError m))
   \<and> extractText reference (text_task ''null'') = Inr ''null''"
  using extractText_total [where rt = reference and task = "text_task ''null''"
          and p = "\<lparr> kind = ''text'', part_text = ''null'' \<rparr>"]
  by (simp add: textPart_text_task reference_def parse_null)

text \<open>
  C10. A text part with the empty text counts as no text part: \<^verbatim>\<open>extractData\<close> returns
  \<^verbatim>\<open>null\<close> and \<^verbatim>\<open>extractText\<close> the sentinel, as both do on the same task with the parts
  of its first artifact removed.
\<close>

theorem empty_text_is_no_text:
  fixes rt :: "'n runtime"
  shows "artifacts task = Some (a # rest) \<and> find (\<lambda>p. kind p = ''text'') (parts a) = Some p
           \<and> part_text p = []
         \<longrightarrow> extractData rt task = Inr JNull \<and> extractText rt task = Inr no_response
           \<and> extractData rt task = extractData rt (task \<lparr> artifacts := Some (a \<lparr> parts := [] \<rparr> # rest) \<rparr>)
           \<and> extractText rt task = extractText rt (task \<lparr> artifacts := Some (a \<lparr> parts := [] \<rparr> # rest) \<rparr>)"
  by (simp add: extractData_def extractText_def textPart_def)

theorem empty_text_is_no_text_witness:
  "find (\<lambda>p. kind p = ''text'') [\<lparr> kind = ''data'', part_text = ''ignored'' \<rparr>, \<lparr> kind = ''text'', part_text = [] \<rparr>]
     = Some \<lparr> kind = ''text'', part_text = [] \<rparr>
   \<and> extractData reference (text_task []) = Inr JNull
   \<and> extractText reference (text_task []) = Inr no_response"
  using empty_text_is_no_text [where rt = reference and task = "text_task []"
          and a = "\<lparr> artifactId = ''artifact-1'', artifact_name = ''response'',
                      parts = [\<lparr> kind = ''data'', part_text = ''ignored'' \<rparr>, \<lparr> kind = ''text'', part_text = [] \<rparr>] \<rparr>"
          and rest = "[]" and p = "\<lparr> kind = ''text'', part_text = [] \<rparr>"]
  by (simp add: text_task_def)

section \<open>The reference runtime: properties\<close>

text \<open>The reference codec reads what it prints: for every value whose objects have distinct
  keys, \<open>parse (stringify 0 0 v) = Inr v\<close>. Numbers first, then string literals, then values
  by induction, with enough fuel for the text.\<close>

lemma below_10: "d < 10 \<Longrightarrow> d = 0 \<or> d = 1 \<or> d = 2 \<or> d = 3 \<or> d = 4 \<or> d = 5 \<or> d = 6 \<or> d = 7 \<or> d = 8 \<or> d = (9::nat)"
  by arith


lemma digit_code: "d < 10 \<Longrightarrow> (of_char (digit d) :: nat) = 48 + d"
  by (drule below_10) (auto simp add: digit_def)


lemma digits_not_empty: "digits n \<noteq> []"
  by (subst digits.simps) simp

lemma is_digit_digits: "c \<in> set (digits n) \<Longrightarrow> is_digit c"
proof (induction n arbitrary: c rule: digits.induct)
  case (1 n)
  show ?case
  proof (cases "n < 10")
    case True
    with "1.prems" show ?thesis
      by (subst (asm) digits.simps) (simp add: is_digit_def digit_code)
  next
    case False
    have "n mod 10 < 10" by simp
    with False "1.prems" "1.IH" show ?thesis
      by (subst (asm) digits.simps) (auto simp add: is_digit_def digit_code)
  qed
qed





lemma delimited_simps [simp]:
  "delimited []" "delimited (CHR '','' # cs)" "delimited (CHR '']'' # cs)" "delimited (CHR ''}'' # cs)"
  by (simp_all add: delimited_def)










lemma stringify_array: 
  "stringify 0 0 (JArray xs) = (if xs = [] then ''[]'' else CHR ''['' # intercalate '','' (map (stringify 0 0) xs) @ '']'')"
  by (simp add: stringify.simps)

lemma stringify_object: 
  "stringify 0 0 (JObject kvs) =
     (if kvs = [] then ''{}''
      else CHR ''{'' # intercalate '','' (map (\<lambda>kv. quote (fst kv) @ CHR '':'' # stringify 0 0 (snd kv)) kvs) @ ''}'')"
  by (simp add: stringify.simps)

lemma show_int_head: "\<exists>c cs. show_int i = c # cs \<and> (c = CHR ''-'' \<or> is_digit c)"
proof (cases "i < 0")
  case True
  then show ?thesis by (simp add: show_int_def)
next
  case False
  obtain c cs where d: "digits (nat i) = c # cs"
    using digits_not_empty [of "nat i"] by (cases "digits (nat i)") auto
  then have "c \<in> set (digits (nat i))" by simp
  then have "is_digit c" by (rule is_digit_digits)
  with False d show ?thesis by (simp add: show_int_def)
qed

lemma stringify_head:
  "\<exists>c cs. stringify 0 0 v = c # cs \<and> \<not> is_ws c \<and> c \<noteq> CHR '']''"
proof (cases v)
  case (JNumber i)
  obtain c cs where "show_int i = c # cs" and "c = CHR ''-'' \<or> is_digit c"
    using show_int_head by blast
  then show ?thesis
    by (auto simp add: JNumber stringify.simps is_ws_def is_digit_def)
qed (auto simp add: stringify.simps stringify_array stringify_object quote_def is_ws_def)

lemma skip_ws_stringify: "skip_ws (stringify 0 0 v @ rest) = stringify 0 0 v @ rest"
  using stringify_head [of v] by (auto simp add: skip_ws_def)

lemma skip_ws_delimiter [simp]:
  "skip_ws (CHR '','' # r) = CHR '','' # r"
  "skip_ws (CHR '']'' # r) = CHR '']'' # r"
  "skip_ws (CHR ''}'' # r) = CHR ''}'' # r"
  "skip_ws (CHR '':'' # r) = CHR '':'' # r"
  "skip_ws (CHR 0x22 # r) = CHR 0x22 # r"
  by (simp_all add: skip_ws_def is_ws_def)







section \<open>The protocol client: properties\<close>

lemma rpc_response:
  assumes "fetch \<lparr> url = baseUrl c @ ''/a2a'', headers = [(''Content-Type'', ''application/json'')],
                   body = JSON_stringify rt (envelope rt meth ps (increment (rpcId c))) \<rparr> = Inr res"
    and "ok res"
  shows "fst (rpc rt fetch meth ps c) = body_json res"
  using assms by (simp add: rpc_def Let_def)

lemma rpc_sent:
  "snd (rpc rt fetch meth ps c) =
     c \<lparr> rpcId := increment (rpcId c),
         sent := sent c @ [\<lparr> url = baseUrl c @ ''/a2a'', headers = [(''Content-Type'', ''application/json'')],
                   body = JSON_stringify rt (envelope rt meth ps (increment (rpcId c))) \<rparr>] \<rparr>"
  by (simp add: rpc_def Let_def split: sum.splits)


text \<open>
  C3. Whenever the JSON-RPC response of a call has an \<^verbatim>\<open>error\<close> field, the call throws
  an error whose message carries the code and the message of that field, whatever the
  \<^verbatim>\<open>result\<close> field is: \<^verbatim>\<open>sendText\<close>, \<^verbatim>\<open>send\<close>, \<^verbatim>\<open>getTask\<close> and \<^verbatim>\<open>cancelTask\<close>
  test \<^verbatim>\<open>response.error\<close> first. The response is what \<^verbatim>\<open>rpc\<close> returns, that is the
  decoded body of an answer with a 2xx status.
\<close>

theorem error_precedes_result:
  fixes rt :: "'n runtime"
  shows
  "(rpc rt fetch ''message/send'' (rpcParams t ctx) c = (Inr r, c') \<and> error r = Some e
      \<longrightarrow> sendText rt fetch t ctx c
            = (Inl (Error (''A2A error ['' @ Number_toString rt (code e) @ '']: '' @ message e)), c'))
   \<and> (rpc rt fetch ''message/send'' (rpcParams (operation_text rt op ps) ctx) c = (Inr r, c')
        \<and> error r = Some e
      \<longrightarrow> send rt fetch op ps ctx c
            = (Inl (Error (''A2A error ['' @ Number_toString rt (code e) @ '']: '' @ message e)), c'))
   \<and> (rpc rt fetch ''tasks/get'' (JObject [(''id'', JString taskId)]) c = (Inr r, c') \<and> error r = Some e
      \<longrightarrow> getTask rt fetch taskId c
            = (Inl (Error (''A2A error ['' @ Number_toString rt (code e) @ '']: '' @ message e)), c'))
   \<and> (rpc rt fetch ''tasks/cancel'' (JObject [(''id'', JString taskId)]) c = (Inr r, c') \<and> error r = Some e
      \<longrightarrow> cancelTask rt fetch taskId c
            = (Inl (Error (''A2A error ['' @ Number_toString rt (code e) @ '']: '' @ message e)), c'))"
  by (simp add: sendText_def send_def getTask_def cancelTask_def a2a_error_def)

lemma show_int_code: "show_int (- 32601) = ''-32601''"
  by (simp add: show_int_def digits.simps digit_def)

lemma rpc_respond:
  "ok res \<Longrightarrow> rpc rt (respond res) meth ps c = (body_json res, snd (rpc rt (respond res) meth ps c))"
  by (simp add: rpc_def Let_def respond_def)

text \<open>An answer with both fields, to each of the four calls.\<close>

theorem error_precedes_result_witness:
  "result error_and_result = Some (text_task ''done'')
   \<and> fst (sendText reference (respond (http_response 200 [] error_and_result)) ''hello'' None localhost)
       = Inl (Error ''A2A error [-32601]: Method not found'')
   \<and> fst (send reference (respond (http_response 200 [] error_and_result)) ''namespace_create'' create_namespace None localhost)
       = Inl (Error ''A2A error [-32601]: Method not found'')
   \<and> fst (getTask reference (respond (http_response 200 [] error_and_result)) ''task-1'' localhost)
       = Inl (Error ''A2A error [-32601]: Method not found'')
   \<and> fst (cancelTask reference (respond (http_response 200 [] error_and_result)) ''task-1'' localhost)
       = Inl (Error ''A2A error [-32601]: Method not found'')"
proof -
  let ?f = "respond (http_response 200 [] error_and_result)"
  have r: "\<And>meth ps. \<exists>c'. rpc reference ?f meth ps localhost = (Inr error_and_result, c')"
    by (simp add: rpc_def Let_def respond_def http_response_def ok_def)
  obtain c1 where c1: "rpc reference ?f ''message/send'' (rpcParams ''hello'' None) localhost = (Inr error_and_result, c1)"
    using r by blast
  obtain c2 where c2: "rpc reference ?f ''message/send''
      (rpcParams (operation_text reference ''namespace_create'' create_namespace) None) localhost = (Inr error_and_result, c2)"
    using r by blast
  obtain c3 where c3: "rpc reference ?f ''tasks/get'' (JObject [(''id'', JString ''task-1'')]) localhost = (Inr error_and_result, c3)"
    using r by blast
  obtain c4 where c4: "rpc reference ?f ''tasks/cancel'' (JObject [(''id'', JString ''task-1'')]) localhost = (Inr error_and_result, c4)"
    using r by blast
  have e: "error error_and_result = Some \<lparr> code = - 32601, message = ''Method not found'' \<rparr>"
    by (simp add: error_and_result_def)
  have n: "Number_toString reference (- 32601) = ''-32601''"
    by (simp add: reference_def show_int_code)
  note T = error_precedes_result [where rt = reference and fetch = ?f and c = localhost
      and r = error_and_result and e = "\<lparr> code = - 32601, message = ''Method not found'' \<rparr>"
      and t = "''hello''" and ctx = None and op = "''namespace_create''" and ps = create_namespace
      and taskId = "''task-1''"]
  have 1: "fst (sendText reference ?f ''hello'' None localhost) = Inl (Error ''A2A error [-32601]: Method not found'')"
    using T [where c' = c1] c1 e n by simp
  have 2: "fst (send reference ?f ''namespace_create'' create_namespace None localhost) = Inl (Error ''A2A error [-32601]: Method not found'')"
    using T [where c' = c2] c2 e n by simp
  have 3: "fst (getTask reference ?f ''task-1'' localhost) = Inl (Error ''A2A error [-32601]: Method not found'')"
    using T [where c' = c3] c3 e n by simp
  have 4: "fst (cancelTask reference ?f ''task-1'' localhost) = Inl (Error ''A2A error [-32601]: Method not found'')"
    using T [where c' = c4] c4 e n by simp
  have 0: "result error_and_result = Some (text_task ''done'')"
    by (simp add: error_and_result_def)
  from 0 1 2 3 4 show ?thesis by blast
qed

text \<open>
  C7 does not hold of the code. On an answer with a 2xx status and neither \<^verbatim>\<open>result\<close> nor
  \<^verbatim>\<open>error\<close>, \<^verbatim>\<open>getTask\<close> does not throw: it returns \<^verbatim>\<open>undefined\<close>, as \<^verbatim>\<open>cancelTask\<close>
  does, where \<^verbatim>\<open>sendText\<close> throws the empty-response error.
\<close>

theorem getTask_empty_response:
  "fst (getTask reference (respond (http_response 200 [] neither_result_nor_error)) ''task-1'' localhost) = Inr None
   \<and> fst (cancelTask reference (respond (http_response 200 [] neither_result_nor_error)) ''task-1'' localhost) = Inr None
   \<and> fst (sendText reference (respond (http_response 200 [] neither_result_nor_error)) ''hello'' None localhost)
       = Inl (Error ''Empty response from A2A endpoint'')"
  by (simp add: getTask_def cancelTask_def sendText_def rpc_def Let_def respond_def http_response_def ok_def
        neither_result_nor_error_def)










section \<open>The orchestration loop: properties\<close>

lemma dispatch_results:
  "fst (dispatch rt fetch bs rs c) = rs @ fst (dispatch rt fetch bs [] c)
   \<and> snd (dispatch rt fetch bs rs c) = snd (dispatch rt fetch bs [] c)"
proof (induction bs arbitrary: rs c)
  case Nil
  show ?case by simp
next
  case (Cons blk bs)
  show ?case
  proof (cases blk)
    case (ToolUseBlock b t)
    show ?thesis
    proof (cases t)
      case (declare_plan title steps)
      show ?thesis
        using Cons.IH [of "rs @ [ToolResultBlock b ''Plan acknowledged. Proceed with execution.'']" c]
              Cons.IH [of "[ToolResultBlock b ''Plan acknowledged. Proceed with execution.'']" c]
        by (simp add: ToolUseBlock declare_plan)
    next
      case (a2a_call reflection narration reason op ps)
      obtain r c' where e:
        "executeCall rt fetch (case reflection of None \<Rightarrow> [] | Some r \<Rightarrow> r) narration
            (case reason of None \<Rightarrow> [] | Some r \<Rightarrow> r) op (nullish ps (JObject [])) c = (r, c')"
        by (cases "executeCall rt fetch (case reflection of None \<Rightarrow> [] | Some r \<Rightarrow> r) narration
            (case reason of None \<Rightarrow> [] | Some r \<Rightarrow> r) op (nullish ps (JObject [])) c")
      show ?thesis
        using Cons.IH [of "rs @ [ToolResultBlock b r]" c'] Cons.IH [of "[ToolResultBlock b r]" c']
        by (simp add: ToolUseBlock a2a_call e)
    next
      case (other_tool name input)
      show ?thesis using Cons.IH [of rs c] by (simp add: ToolUseBlock other_tool)
    qed
  next
    case (TextBlock t)
    show ?thesis using Cons.IH [of rs c] by (simp add: TextBlock)
  next
    case (ToolResultBlock b r)
    show ?thesis using Cons.IH [of rs c] by (simp add: ToolResultBlock)
  next
    case (OtherBlock t)
    show ?thesis using Cons.IH [of rs c] by (simp add: OtherBlock)
  qed
qed

lemma dispatch_append:
  "dispatch rt fetch (xs @ ys) rs c =
     dispatch rt fetch ys (fst (dispatch rt fetch xs rs c)) (snd (dispatch rt fetch xs rs c))"
proof (induction xs arbitrary: rs c)
  case Nil
  show ?case by simp
next
  case (Cons blk bs)
  show ?case
  proof (cases blk)
    case (ToolUseBlock b t)
    show ?thesis
    proof (cases t)
      case (declare_plan title steps)
      show ?thesis using Cons.IH by (simp add: ToolUseBlock declare_plan)
    next
      case (a2a_call reflection narration reason op ps)
      show ?thesis using Cons.IH by (simp add: ToolUseBlock a2a_call split: prod.splits)
    next
      case (other_tool name input)
      show ?thesis using Cons.IH by (simp add: ToolUseBlock other_tool)
    qed
  next
    case (TextBlock t)
    show ?thesis using Cons.IH by (simp add: TextBlock)
  next
    case (ToolResultBlock b r)
    show ?thesis using Cons.IH by (simp add: ToolResultBlock)
  next
    case (OtherBlock t)
    show ?thesis using Cons.IH by (simp add: OtherBlock)
  qed
qed

lemma tool_result_ids_append: "tool_result_ids (xs @ ys) = tool_result_ids xs @ tool_result_ids ys"
  by (induction xs rule: tool_result_ids.induct) simp_all

lemma tool_call_ids_append: "tool_call_ids (xs @ ys) = tool_call_ids xs @ tool_call_ids ys"
  by (induction xs rule: tool_call_ids.induct) simp_all

lemma dispatch_ids:
  "tool_result_ids (fst (dispatch rt fetch bs rs c)) = tool_result_ids rs @ tool_call_ids bs"
proof (induction bs arbitrary: rs c)
  case Nil
  show ?case by simp
next
  case (Cons blk bs)
  show ?case
  proof (cases blk)
    case (ToolUseBlock b t)
    show ?thesis
    proof (cases t)
      case (declare_plan title steps)
      show ?thesis using Cons.IH by (simp add: ToolUseBlock declare_plan tool_result_ids_append)
    next
      case (a2a_call reflection narration reason op ps)
      show ?thesis using Cons.IH
        by (simp add: ToolUseBlock a2a_call tool_result_ids_append split: prod.splits)
    next
      case (other_tool name input)
      show ?thesis using Cons.IH by (simp add: ToolUseBlock other_tool)
    qed
  next
    case (TextBlock t)
    show ?thesis using Cons.IH by (simp add: TextBlock)
  next
    case (ToolResultBlock b r)
    show ?thesis using Cons.IH by (simp add: ToolResultBlock)
  next
    case (OtherBlock t)
    show ?thesis using Cons.IH by (simp add: OtherBlock)
  qed
qed

lemma runTurn_end_turn:
  assumes "create (CreateParams MODEL 4096 sys tools (messages w)) = Inr response"
    and "stop_reason response = Some ''end_turn''"
  shows "runTurn rt fetch create tools sys w =
     Some (Inr (), w \<lparr> inferences := inferences w @ [CreateParams MODEL 4096 sys tools (messages w)],
                       messages := messages w @ [\<lparr> role = ''assistant'', content = Blocks (blocks response) \<rparr>] \<rparr>)"
  using assms by (subst runTurn.simps) (simp add: Let_def)

lemma runTurn_tool_use:
  assumes "create (CreateParams MODEL 4096 sys tools (messages w)) = Inr response"
    and "stop_reason response = Some ''tool_use''"
  shows "runTurn rt fetch create tools sys w =
     runTurn rt fetch create tools sys
       (w \<lparr> inferences := inferences w @ [CreateParams MODEL 4096 sys tools (messages w)],
            a2aClient := snd (dispatch rt fetch (blocks response) [] (a2aClient w)),
            messages := messages w
              @ [\<lparr> role = ''assistant'', content = Blocks (blocks response) \<rparr>,
                 \<lparr> role = ''user'', content = Blocks (fst (dispatch rt fetch (blocks response) [] (a2aClient w))) \<rparr>] \<rparr>)"
  using assms by (subst runTurn.simps) (simp add: Let_def)

lemma dispatch_call:
  assumes "dispatch rt fetch pre [] c0 = (rs, c)"
    and "executeCall rt fetch (case reflection of None \<Rightarrow> [] | Some r \<Rightarrow> r) narration
            (case reason of None \<Rightarrow> [] | Some r \<Rightarrow> r) op (nullish ps (JObject [])) c = (r, c')"
  shows "dispatch rt fetch (pre @ ToolUseBlock b (a2a_call reflection narration reason op ps) # post) [] c0
          = (rs @ ToolResultBlock b r # fst (dispatch rt fetch post [] c'), snd (dispatch rt fetch post [] c'))"
proof -
  have "dispatch rt fetch (pre @ ToolUseBlock b (a2a_call reflection narration reason op ps) # post) [] c0
      = dispatch rt fetch post (rs @ [ToolResultBlock b r]) c'"
    using assms by (simp add: dispatch_append)
  also have "\<dots> = ((rs @ [ToolResultBlock b r]) @ fst (dispatch rt fetch post [] c'), snd (dispatch rt fetch post [] c'))"
    using dispatch_results [of rt fetch post "rs @ [ToolResultBlock b r]" c']
    by (cases "dispatch rt fetch post (rs @ [ToolResultBlock b r]) c'") simp
  finally show ?thesis by simp
qed


lemma extractData_total: "\<exists>d. extractData rt task = Inr d"
  by (simp add: extractData_def split: option.splits sum.splits)

lemma executeCall_failure:
  assumes "send rt fetch op ps None c = (Inl e, c')"
  shows "executeCall rt fetch reflection narration reason op ps c
           = (JSON_stringify rt (JObject [(''error'', JString (error_message e))]), c')"
  using assms by (simp add: executeCall_def executeCall_try_def)

lemma executeCall_success:
  assumes "send rt fetch op ps None c = (Inr task, c')" and "extractData rt task = Inr d"
    and "printCallBottom rt (Some d) = Inr ()"
  shows "executeCall rt fetch reflection narration reason op ps c
           = (JSON_stringify_indent2 rt (call_result task d), c')"
  using assms by (simp add: executeCall_def executeCall_try_def)

lemma executeCall_rendering:
  assumes "send rt fetch op ps None c = (Inr task, c')" and "extractData rt task = Inr d"
    and "printCallBottom rt (Some d) = Inl e"
  shows "executeCall rt fetch reflection narration reason op ps c
           = (JSON_stringify rt (JObject [(''error'', JString (error_message e))]), c')"
  using assms by (simp add: executeCall_def executeCall_try_def)

text \<open>On the object that the \<^verbatim>\<open>catch\<close> block of \<^verbatim>\<open>executeCall\<close> renders,
  \<^verbatim>\<open>printCallBottom\<close> returns; on a string, a number or a boolean it throws.\<close>

lemma printCallBottom_error: "printCallBottom rt (Some (JObject [(''error'', JString m)])) = Inr ()"
  by (simp add: printCallBottom_def formatResponse_def)

lemma printCallBottom_primitive:
  "printCallBottom rt (Some (JString s)) = Inl (in_operator_error rt (JString s))"
  "printCallBottom rt (Some (JNumber n)) = Inl (in_operator_error rt (JNumber n))"
  "printCallBottom rt (Some (JBool b)) = Inl (in_operator_error rt (JBool b))"
  by (simp_all add: printCallBottom_def formatResponse_def)

text \<open>
  C8. If the provider's first answer has the stop reason \<^verbatim>\<open>end_turn\<close>, the run returns
  after that one inference call: one assistant message has been appended, and the client
  is as it was, so no request has been sent.
\<close>

theorem final_answer_ends_run:
  fixes rt :: "'n runtime"
  assumes "create (CreateParams MODEL 4096 sys tools (messages w)) = Inr response"
    and "stop_reason response = Some ''end_turn''"
  shows "\<exists>w'. runTurn rt fetch create tools sys w = Some (Inr (), w')
           \<and> inferences w' = inferences w @ [CreateParams MODEL 4096 sys tools (messages w)]
           \<and> a2aClient w' = a2aClient w
           \<and> messages w' = messages w @ [\<lparr> role = ''assistant'', content = Blocks (blocks response) \<rparr>]"
  using assms by (simp add: runTurn_end_turn)

lemma scripted_first:
  "scripted (m # script) (CreateParams MODEL 4096 sys tools (messages start)) = Inr m"
  by (simp add: scripted_def start_def)

text \<open>A provider whose first answer is final.\<close>

theorem final_answer_ends_run_witness:
  "\<exists>w'. runTurn reference (respond (http_response 200 [] (result_only namespace_created)))
            (scripted [final_answer]) [] ''You are Test Agent'' start = Some (Inr (), w')
        \<and> length (inferences w') = 1
        \<and> sent (a2aClient w') = []
        \<and> messages w' = [\<lparr> role = ''user'', content = Text ''create a namespace named demo with 2 cores'' \<rparr>,
                          \<lparr> role = ''assistant'', content = Blocks [TextBlock ''Done.''] \<rparr>]"
  using final_answer_ends_run [where rt = reference and create = "scripted [final_answer]" and w = start
          and response = final_answer and sys = "''You are Test Agent''" and tools = "[]"
          and fetch = "respond (http_response 200 [] (result_only namespace_created))"]
  by (simp add: scripted_first final_answer_def) (auto simp add: start_def localhost_def new_client_def)


text \<open>
  C2. When the inference provider asks for tool calls and the \<^verbatim>\<open>send\<close> of an
  \<^verbatim>\<open>a2a_call\<close> among them throws, whatever the error, \<^verbatim>\<open>executeCall\<close> catches it and the
  loop goes on: the calls after it are dispatched, and the run continues from a
  conversation to which the assistant turn and one user turn of tool results have been
  appended, before any further inference call. The results answer the calls of the
  response one for one and in their order, and the result of the failed call is the JSON
  text of an object whose \<^verbatim>\<open>error\<close> is the message of the error (it decodes to that
  object, given that the runtime's codec decodes what it encoded).
\<close>

theorem failed_call_is_answered:
  fixes rt :: "'n runtime"
  assumes "create (CreateParams MODEL 4096 sys tools (messages w)) = Inr response"
    and "stop_reason response = Some ''tool_use''"
    and "blocks response = pre @ ToolUseBlock b (a2a_call reflection narration reason op ps) # post"
    and "dispatch rt fetch pre [] (a2aClient w) = (rs, c)"
    and "send rt fetch op (nullish ps (JObject [])) None c = (Inl e, c')"
    and "JSON_parse rt (JSON_stringify rt (JObject [(''error'', JString (error_message e))]))
           = Inr (JObject [(''error'', JString (error_message e))])"
  shows "runTurn rt fetch create tools sys w =
           runTurn rt fetch create tools sys
             (w \<lparr> inferences := inferences w @ [CreateParams MODEL 4096 sys tools (messages w)],
                  a2aClient := snd (dispatch rt fetch post [] c'),
                  messages := messages w
                    @ [\<lparr> role = ''assistant'', content = Blocks (blocks response) \<rparr>,
                       \<lparr> role = ''user'',
                         content = Blocks (rs @ ToolResultBlock b
                                       (JSON_stringify rt (JObject [(''error'', JString (error_message e))]))
                                     # fst (dispatch rt fetch post [] c')) \<rparr>] \<rparr>)
     \<and> tool_result_ids (rs @ ToolResultBlock b
                              (JSON_stringify rt (JObject [(''error'', JString (error_message e))]))
                            # fst (dispatch rt fetch post [] c'))
         = tool_call_ids (blocks response)
     \<and> (\<exists>d. JSON_parse rt (JSON_stringify rt (JObject [(''error'', JString (error_message e))])) = Inr d
            \<and> Get d ''error'' = Inr (Some (JString (error_message e))))"
proof -
  let ?r = "JSON_stringify rt (JObject [(''error'', JString (error_message e))])"
  have x: "executeCall rt fetch (case reflection of None \<Rightarrow> [] | Some r \<Rightarrow> r) narration
            (case reason of None \<Rightarrow> [] | Some r \<Rightarrow> r) op (nullish ps (JObject [])) c = (?r, c')"
    using assms(5) by (rule executeCall_failure)
  have d: "dispatch rt fetch (blocks response) [] (a2aClient w)
      = (rs @ ToolResultBlock b ?r # fst (dispatch rt fetch post [] c'), snd (dispatch rt fetch post [] c'))"
    unfolding assms(3) using assms(4) x by (rule dispatch_call)
  have 1: "runTurn rt fetch create tools sys w =
           runTurn rt fetch create tools sys
             (w \<lparr> inferences := inferences w @ [CreateParams MODEL 4096 sys tools (messages w)],
                  a2aClient := snd (dispatch rt fetch post [] c'),
                  messages := messages w
                    @ [\<lparr> role = ''assistant'', content = Blocks (blocks response) \<rparr>,
                       \<lparr> role = ''user'',
                         content = Blocks (rs @ ToolResultBlock b ?r # fst (dispatch rt fetch post [] c')) \<rparr>] \<rparr>)"
    using runTurn_tool_use [where create = create and sys = sys and tools = tools and w = w
            and response = response and rt = rt and fetch = fetch] assms(1) assms(2)
    by (simp add: d)
  have 2: "tool_result_ids (rs @ ToolResultBlock b ?r # fst (dispatch rt fetch post [] c'))
         = tool_call_ids (blocks response)"
    using dispatch_ids [of rt fetch "blocks response" "[]" "a2aClient w"] by (simp add: d)
  have 3: "\<exists>d. JSON_parse rt ?r = Inr d \<and> Get d ''error'' = Inr (Some (JString (error_message e)))"
    using assms(6) by simp
  from 1 2 3 show ?thesis by blast
qed

lemma show_int_500: "show_int 500 = ''500''"
  by (simp add: show_int_def digits.simps digit_def)

lemma stringify_error_500:
  \<open>stringify 0 0 (JObject [(''error'', JString ''HTTP 500: Internal Server Error'')])
     = ''{"error":"HTTP 500: Internal Server Error"}''\<close>
  by code_simp

lemma parse_error_500:
  \<open>parse ''{"error":"HTTP 500: Internal Server Error"}''
     = Inr (JObject [(''error'', JString ''HTTP 500: Internal Server Error'')])\<close>
  by code_simp

lemma scripted_second:
  "length (filter (\<lambda>msg. role msg = ''assistant'') msgs) = 1
     \<Longrightarrow> scripted [m1, m2] (CreateParams MODEL 4096 sys tools msgs) = Inr m2"
  by (simp add: scripted_def)

text \<open>The transport answers with the status 500: the call is answered by the error, the
  run goes on to the second inference call and ends with its final answer.\<close>

theorem failed_call_is_answered_witness:
  \<open>\<exists>w'. runTurn reference (respond (http_response 500 ''Internal Server Error'' neither_result_nor_error))
            (scripted [plan_then_create, final_answer]) [] ''You are Test Agent'' start = Some (Inr (), w')
        \<and> length (inferences w') = 2
        \<and> length (sent (a2aClient w')) = 1
        \<and> messages w' =
            [\<lparr> role = ''user'', content = Text ''create a namespace named demo with 2 cores'' \<rparr>,
             \<lparr> role = ''assistant'', content = Blocks (blocks plan_then_create) \<rparr>,
             \<lparr> role = ''user'', content = Blocks
                [ToolResultBlock ''toolu_1'' ''Plan acknowledged. Proceed with execution.'',
                 ToolResultBlock ''toolu_2'' ''{"error":"HTTP 500: Internal Server Error"}''] \<rparr>,
             \<lparr> role = ''assistant'', content = Blocks [TextBlock ''Done.''] \<rparr>]\<close>
proof -
  let ?fetch = "respond (http_response 500 ''Internal Server Error'' neither_result_nor_error) :: int transport"
  let ?create = "scripted [plan_then_create, final_answer]"
  let ?c' = "snd (rpc reference ?fetch ''message/send''
                (rpcParams (operation_text reference ''namespace_create'' create_namespace) None) localhost)"
  let ?e = "Error ''HTTP 500: Internal Server Error''"
  have h1: "?create (CreateParams MODEL 4096 ''You are Test Agent'' [] (messages start)) = Inr plan_then_create"
    by (rule scripted_first)
  have h2: "stop_reason plan_then_create = Some ''tool_use''"
    by (simp add: plan_then_create_def)
  have h3: "blocks plan_then_create =
      [TextBlock ''I will create the namespace.'',
       ToolUseBlock ''toolu_1'' (declare_plan ''Create namespace'' [''create demo''])]
      @ ToolUseBlock ''toolu_2''
          (a2a_call None ''Creating the namespace'' (Some ''The user asked for it'')
             ''namespace_create'' (Some create_namespace)) # []"
    by (simp add: plan_then_create_def)
  have h4: "dispatch reference ?fetch
      [TextBlock ''I will create the namespace.'',
       ToolUseBlock ''toolu_1'' (declare_plan ''Create namespace'' [''create demo''])] [] (a2aClient start)
      = ([ToolResultBlock ''toolu_1'' ''Plan acknowledged. Proceed with execution.''], localhost)"
    by (simp add: start_def)
  have n: "nullish (Some create_namespace) (JObject []) = create_namespace"
    by (simp add: create_namespace_def)
  have h5: "send reference ?fetch ''namespace_create'' (nullish (Some create_namespace) (JObject [])) None localhost
      = (Inl ?e, ?c')"
    by (simp add: n send_def rpc_def Let_def respond_def http_response_def ok_def reference_def show_int_500)
  have h6: "JSON_parse reference (JSON_stringify reference (JObject [(''error'', JString (error_message ?e))]))
           = Inr (JObject [(''error'', JString (error_message ?e))])"
    by (simp add: reference_def stringify_error_500 parse_error_500)
  note T = failed_call_is_answered [where rt = reference and fetch = ?fetch and create = ?create
      and sys = "''You are Test Agent''" and tools = "[]" and w = start and response = plan_then_create
      and pre = "[TextBlock ''I will create the namespace.'',
                  ToolUseBlock ''toolu_1'' (declare_plan ''Create namespace'' [''create demo''])]"
      and b = "''toolu_2''" and reflection = None and narration = "''Creating the namespace''"
      and reason = "Some ''The user asked for it''" and op = "''namespace_create''"
      and ps = "Some create_namespace" and post = "[]"
      and rs = "[ToolResultBlock ''toolu_1'' ''Plan acknowledged. Proceed with execution.'']"
      and c = localhost and e = ?e and c' = ?c']
  let ?w1 = "start \<lparr> inferences := inferences start @ [CreateParams MODEL 4096 ''You are Test Agent'' [] (messages start)],
                  a2aClient := snd (dispatch reference ?fetch [] [] ?c'),
                  messages := messages start
                    @ [\<lparr> role = ''assistant'', content = Blocks (blocks plan_then_create) \<rparr>,
                       \<lparr> role = ''user'',
                         content = Blocks ([ToolResultBlock ''toolu_1'' ''Plan acknowledged. Proceed with execution.'']
                                     @ ToolResultBlock ''toolu_2''
                                       (JSON_stringify reference (JObject [(''error'', JString (error_message ?e))]))
                                     # fst (dispatch reference ?fetch [] [] ?c')) \<rparr>] \<rparr>"
  have s: "?create (CreateParams MODEL 4096 ''You are Test Agent'' [] (messages ?w1)) = Inr final_answer"
    by (rule scripted_second) (simp add: start_def)
  have f: "stop_reason final_answer = Some ''end_turn''"
    by (simp add: final_answer_def)
  have r: "runTurn reference ?fetch ?create [] ''You are Test Agent'' start
      = Some (Inr (), ?w1 \<lparr> inferences := inferences ?w1 @ [CreateParams MODEL 4096 ''You are Test Agent'' [] (messages ?w1)],
                       messages := messages ?w1 @ [\<lparr> role = ''assistant'', content = Blocks (blocks final_answer) \<rparr>] \<rparr>)"
    using T h1 h2 h3 h4 h5 h6
      runTurn_end_turn [where create = ?create and sys = "''You are Test Agent''" and tools = "[]"
        and w = ?w1 and response = final_answer and rt = reference and fetch = ?fetch] s f
    by simp
  show ?thesis
    unfolding r
    by (simp add: start_def final_answer_def rpc_sent localhost_def new_client_def reference_def stringify_error_500)
qed


text \<open>
  When the \<^verbatim>\<open>send\<close> of an \<^verbatim>\<open>a2a_call\<close> returns a task and the rendering of its data
  returns, the result of the call is the JSON text (indented by two) of an object with the
  state of the task under \<^verbatim>\<open>status\<close> and what \<^verbatim>\<open>extractData\<close> gives for the task under
  \<^verbatim>\<open>data\<close>; the object has a third property \<^verbatim>\<open>warning\<close>, the message of the advisory,
  exactly when the task has \<^verbatim>\<open>metadata.lowBalanceWarning\<close>. The result is in the user
  turn that is appended before the run continues with the next inference call.
\<close>

lemma rendered_call_is_answered:
  fixes rt :: "'n runtime"
  assumes "create (CreateParams MODEL 4096 sys tools (messages w)) = Inr response"
    and "stop_reason response = Some ''tool_use''"
    and "blocks response = pre @ ToolUseBlock b (a2a_call reflection narration reason op ps) # post"
    and "dispatch rt fetch pre [] (a2aClient w) = (rs, c)"
    and "send rt fetch op (nullish ps (JObject [])) None c = (Inr task, c')"
    and "extractData rt task = Inr d"
    and "printCallBottom rt (Some d) = Inr ()"
  shows "\<exists>obj.
       runTurn rt fetch create tools sys w =
           runTurn rt fetch create tools sys
             (w \<lparr> inferences := inferences w @ [CreateParams MODEL 4096 sys tools (messages w)],
                  a2aClient := snd (dispatch rt fetch post [] c'),
                  messages := messages w
                    @ [\<lparr> role = ''assistant'', content = Blocks (blocks response) \<rparr>,
                       \<lparr> role = ''user'',
                         content = Blocks (rs @ ToolResultBlock b (JSON_stringify_indent2 rt obj)
                                     # fst (dispatch rt fetch post [] c')) \<rparr>] \<rparr>)
     \<and> tool_result_ids (rs @ ToolResultBlock b (JSON_stringify_indent2 rt obj)
                            # fst (dispatch rt fetch post [] c'))
         = tool_call_ids (blocks response)
     \<and> (\<forall>m lw. metadata task = Some m \<and> lowBalanceWarning m = Some lw \<longrightarrow>
           obj = JObject [(''status'', JString (state (status task))), (''data'', d),
                          (''warning'', JString (warning_message lw))])
     \<and> (metadata task = None \<or> (\<exists>m. metadata task = Some m \<and> lowBalanceWarning m = None) \<longrightarrow>
           obj = JObject [(''status'', JString (state (status task))), (''data'', d)])"
proof -
  let ?r = "JSON_stringify_indent2 rt (call_result task d)"
  have x: "executeCall rt fetch (case reflection of None \<Rightarrow> [] | Some r \<Rightarrow> r) narration
            (case reason of None \<Rightarrow> [] | Some r \<Rightarrow> r) op (nullish ps (JObject [])) c = (?r, c')"
    using assms(5) assms(6) assms(7) by (rule executeCall_success)
  have e: "dispatch rt fetch (blocks response) [] (a2aClient w)
      = (rs @ ToolResultBlock b ?r # fst (dispatch rt fetch post [] c'), snd (dispatch rt fetch post [] c'))"
    unfolding assms(3) using assms(4) x by (rule dispatch_call)
  have 1: "runTurn rt fetch create tools sys w =
           runTurn rt fetch create tools sys
             (w \<lparr> inferences := inferences w @ [CreateParams MODEL 4096 sys tools (messages w)],
                  a2aClient := snd (dispatch rt fetch post [] c'),
                  messages := messages w
                    @ [\<lparr> role = ''assistant'', content = Blocks (blocks response) \<rparr>,
                       \<lparr> role = ''user'',
                         content = Blocks (rs @ ToolResultBlock b ?r # fst (dispatch rt fetch post [] c')) \<rparr>] \<rparr>)"
    using runTurn_tool_use [where create = create and sys = sys and tools = tools and w = w
            and response = response and rt = rt and fetch = fetch] assms(1) assms(2)
    by (simp add: e)
  have 2: "tool_result_ids (rs @ ToolResultBlock b ?r # fst (dispatch rt fetch post [] c'))
         = tool_call_ids (blocks response)"
    using dispatch_ids [of rt fetch "blocks response" "[]" "a2aClient w"] by (simp add: e)
  have 3: "\<forall>m lw. metadata task = Some m \<and> lowBalanceWarning m = Some lw \<longrightarrow>
           call_result task d = JObject [(''status'', JString (state (status task))), (''data'', d),
                          (''warning'', JString (warning_message lw))]"
    by (simp add: call_result_def)
  have 4: "metadata task = None \<or> (\<exists>m. metadata task = Some m \<and> lowBalanceWarning m = None) \<longrightarrow>
           call_result task d = JObject [(''status'', JString (state (status task))), (''data'', d)]"
    by (auto simp add: call_result_def)
  from 1 2 3 4 show ?thesis by blast
qed

lemma parse_namespace:
  \<open>parse ''{"data":{"id":"ns-1","shortId":"ns1","name":"demo"}}'' = Inr namespace_data\<close>
  by code_simp

lemma extractData_namespace_created: "extractData reference namespace_created = Inr namespace_data"
  by (simp add: extractData_def namespace_created_def textPart_def text_task_def reference_def parse_namespace)

lemma printCallBottom_namespace: "printCallBottom reference (Some namespace_data) = Inr ()"
  by (simp add: printCallBottom_def formatResponse_def namespace_data_def)

text \<open>The scenario of the specification: a plan, then \<^verbatim>\<open>namespace_create\<close>; the transport
  returns a completed task that carries a low-balance advisory, and whose text is an
  object, which the rendering accepts. What stands under \<^verbatim>\<open>data\<close> is the whole parsed
  text. The same task without the advisory gives the object without \<^verbatim>\<open>warning\<close>.\<close>

lemma namespace_create_is_answered:
  \<open>(\<exists>w'. runTurn reference (respond (http_response 200 [] (result_only namespace_created)))
            (scripted [plan_then_create, final_answer]) [] ''You are Test Agent'' start = Some (Inr (), w')
        \<and> length (inferences w') = 2
        \<and> length (sent (a2aClient w')) = 1
        \<and> messages w' =
            [\<lparr> role = ''user'', content = Text ''create a namespace named demo with 2 cores'' \<rparr>,
             \<lparr> role = ''assistant'', content = Blocks (blocks plan_then_create) \<rparr>,
             \<lparr> role = ''user'', content = Blocks
                [ToolResultBlock ''toolu_1'' ''Plan acknowledged. Proceed with execution.'',
                 ToolResultBlock ''toolu_2''
                   (JSON_stringify_indent2 reference
                      (JObject [(''status'', JString ''completed''), (''data'', namespace_data),
                                (''warning'', JString ''Balance is low'')]))] \<rparr>,
             \<lparr> role = ''assistant'', content = Blocks [TextBlock ''Done.''] \<rparr>])
   \<and> call_result (namespace_created \<lparr> metadata := None \<rparr>) namespace_data
       = JObject [(''status'', JString ''completed''), (''data'', namespace_data)]\<close>
proof -
  let ?fetch = "respond (http_response 200 [] (result_only namespace_created)) :: int transport"
  let ?create = "scripted [plan_then_create, final_answer]"
  let ?c' = "snd (rpc reference ?fetch ''message/send''
                (rpcParams (operation_text reference ''namespace_create'' create_namespace) None) localhost)"
  have h1: "?create (CreateParams MODEL 4096 ''You are Test Agent'' [] (messages start)) = Inr plan_then_create"
    by (rule scripted_first)
  have h2: "stop_reason plan_then_create = Some ''tool_use''"
    by (simp add: plan_then_create_def)
  have h3: "blocks plan_then_create =
      [TextBlock ''I will create the namespace.'',
       ToolUseBlock ''toolu_1'' (declare_plan ''Create namespace'' [''create demo''])]
      @ ToolUseBlock ''toolu_2''
          (a2a_call None ''Creating the namespace'' (Some ''The user asked for it'')
             ''namespace_create'' (Some create_namespace)) # []"
    by (simp add: plan_then_create_def)
  have h4: "dispatch reference ?fetch
      [TextBlock ''I will create the namespace.'',
       ToolUseBlock ''toolu_1'' (declare_plan ''Create namespace'' [''create demo''])] [] (a2aClient start)
      = ([ToolResultBlock ''toolu_1'' ''Plan acknowledged. Proceed with execution.''], localhost)"
    by (simp add: start_def)
  have n: "nullish (Some create_namespace) (JObject []) = create_namespace"
    by (simp add: create_namespace_def)
  have h5: "send reference ?fetch ''namespace_create'' (nullish (Some create_namespace) (JObject [])) None localhost
      = (Inr namespace_created, ?c')"
    by (simp add: n send_def rpc_def Let_def respond_def http_response_def ok_def result_only_def)
  note T = rendered_call_is_answered [where rt = reference and fetch = ?fetch and create = ?create
      and sys = "''You are Test Agent''" and tools = "[]" and w = start and response = plan_then_create
      and pre = "[TextBlock ''I will create the namespace.'',
                  ToolUseBlock ''toolu_1'' (declare_plan ''Create namespace'' [''create demo''])]"
      and b = "''toolu_2''" and reflection = None and narration = "''Creating the namespace''"
      and reason = "Some ''The user asked for it''" and op = "''namespace_create''"
      and ps = "Some create_namespace" and post = "[]"
      and rs = "[ToolResultBlock ''toolu_1'' ''Plan acknowledged. Proceed with execution.'']"
      and c = localhost and task = namespace_created and c' = ?c' and d = namespace_data]
  let ?obj = "JObject [(''status'', JString ''completed''), (''data'', namespace_data),
                       (''warning'', JString ''Balance is low'')] :: int json"
  let ?w1 = "start \<lparr> inferences := inferences start @ [CreateParams MODEL 4096 ''You are Test Agent'' [] (messages start)],
                  a2aClient := snd (dispatch reference ?fetch [] [] ?c'),
                  messages := messages start
                    @ [\<lparr> role = ''assistant'', content = Blocks (blocks plan_then_create) \<rparr>,
                       \<lparr> role = ''user'',
                         content = Blocks ([ToolResultBlock ''toolu_1'' ''Plan acknowledged. Proceed with execution.'']
                                     @ ToolResultBlock ''toolu_2'' (JSON_stringify_indent2 reference ?obj)
                                     # fst (dispatch reference ?fetch [] [] ?c')) \<rparr>] \<rparr>"
  have m: "metadata namespace_created = Some \<lparr> lowBalanceWarning =
           Some \<lparr> balance = ''0.50'', warning_message = ''Balance is low'' \<rparr> \<rparr>"
    by (simp add: namespace_created_def text_task_def)
  have st: "state (status namespace_created) = ''completed''"
    by (simp add: namespace_created_def text_task_def)
  have t: "runTurn reference ?fetch ?create [] ''You are Test Agent'' start
      = runTurn reference ?fetch ?create [] ''You are Test Agent'' ?w1"
    using T h1 h2 h3 h4 h5 m st by (auto simp add: extractData_namespace_created printCallBottom_namespace)
  have s: "?create (CreateParams MODEL 4096 ''You are Test Agent'' [] (messages ?w1)) = Inr final_answer"
    by (rule scripted_second) (simp add: start_def)
  have f: "stop_reason final_answer = Some ''end_turn''"
    by (simp add: final_answer_def)
  have r: "runTurn reference ?fetch ?create [] ''You are Test Agent'' start
      = Some (Inr (), ?w1 \<lparr> inferences := inferences ?w1 @ [CreateParams MODEL 4096 ''You are Test Agent'' [] (messages ?w1)],
                       messages := messages ?w1 @ [\<lparr> role = ''assistant'', content = Blocks (blocks final_answer) \<rparr>] \<rparr>)"
    using t runTurn_end_turn [where create = ?create and sys = "''You are Test Agent''" and tools = "[]"
        and w = ?w1 and response = final_answer and rt = reference and fetch = ?fetch] s f
    by simp
  have 1: "\<exists>w'. runTurn reference ?fetch ?create [] ''You are Test Agent'' start = Some (Inr (), w')
        \<and> length (inferences w') = 2
        \<and> length (sent (a2aClient w')) = 1
        \<and> messages w' =
            [\<lparr> role = ''user'', content = Text ''create a namespace named demo with 2 cores'' \<rparr>,
             \<lparr> role = ''assistant'', content = Blocks (blocks plan_then_create) \<rparr>,
             \<lparr> role = ''user'', content = Blocks
                [ToolResultBlock ''toolu_1'' ''Plan acknowledged. Proceed with execution.'',
                 ToolResultBlock ''toolu_2'' (JSON_stringify_indent2 reference ?obj)] \<rparr>,
             \<lparr> role = ''assistant'', content = Blocks [TextBlock ''Done.''] \<rparr>]"
    unfolding r
    by (simp add: start_def final_answer_def rpc_sent localhost_def new_client_def)
  have 2: "call_result (namespace_created \<lparr> metadata := None \<rparr>) namespace_data
       = JObject [(''status'', JString ''completed''), (''data'', namespace_data)]"
    by (simp add: call_result_def st)
  from 1 2 show ?thesis by blast
qed

lemma parse_plain_reply: "extractData reference (text_task ''plain'') = Inr (JString ''plain'')"
  by (simp add: extractData_def textPart_text_task reference_def parse_plain)

lemma stringify_in_operator:
  \<open>stringify 0 0 (JObject [(''error'', JString (''Cannot use '' @ [CHR 0x27] @ ''in'' @ [CHR 0x27]
        @ '' operator to search for '' @ [CHR 0x27] @ ''data'' @ [CHR 0x27] @ '' in plain''))])
     = ''{"error":"Cannot use '' @ [CHR 0x27] @ ''in'' @ [CHR 0x27] @ '' operator to search for ''
         @ [CHR 0x27] @ ''data'' @ [CHR 0x27] @ '' in plain"}''\<close>
  by code_simp

lemma stringify_plain_result:
  \<open>stringify 2 0 (JObject [(''status'', JString ''completed''), (''data'', JString ''plain'')])
     = ''{'' @ [CHR 0x0A] @ ''  "status": "completed",'' @ [CHR 0x0A] @ ''  "data": "plain"'' @ [CHR 0x0A] @ ''}''\<close>
  by code_simp

text \<open>
  C4 does not hold of the code. The transport returns a completed task whose text is not
  JSON: \<^verbatim>\<open>send\<close> succeeds and \<^verbatim>\<open>extractData\<close> gives the text, but the rendering of the
  reply throws inside the \<^verbatim>\<open>try\<close> block (\<^verbatim>\<open>"data" in obj\<close> on a string), the \<^verbatim>\<open>catch\<close>
  takes over, and the result of the call is an error object instead of the object with
  \<^verbatim>\<open>status\<close> and \<^verbatim>\<open>data\<close>. The run goes on with that result.
\<close>

theorem plain_reply_is_answered_by_error:
  \<open>fst (send reference (respond (http_response 200 [] (result_only (text_task ''plain''))))
          ''namespace_create'' create_namespace None localhost) = Inr (text_task ''plain'')
   \<and> extractData reference (text_task ''plain'') = Inr (JString ''plain'')
   \<and> fst (executeCall reference (respond (http_response 200 [] (result_only (text_task ''plain''))))
            [] ''Creating the namespace'' ''The user asked for it'' ''namespace_create'' create_namespace localhost)
       = ''{"error":"Cannot use '' @ [CHR 0x27] @ ''in'' @ [CHR 0x27] @ '' operator to search for ''
           @ [CHR 0x27] @ ''data'' @ [CHR 0x27] @ '' in plain"}''
   \<and> JSON_stringify_indent2 reference (call_result (text_task ''plain'') (JString ''plain''))
       = ''{'' @ [CHR 0x0A] @ ''  "status": "completed",'' @ [CHR 0x0A] @ ''  "data": "plain"'' @ [CHR 0x0A] @ ''}''
   \<and> map_option (\<lambda>r. (fst r, messages (snd r)))
        (runTurn reference (respond (http_response 200 [] (result_only (text_task ''plain''))))
           (scripted [plan_then_create, final_answer]) [] ''You are Test Agent'' start)
       = Some (Inr (),
            [\<lparr> role = ''user'', content = Text ''create a namespace named demo with 2 cores'' \<rparr>,
             \<lparr> role = ''assistant'', content = Blocks (blocks plan_then_create) \<rparr>,
             \<lparr> role = ''user'', content = Blocks
                [ToolResultBlock ''toolu_1'' ''Plan acknowledged. Proceed with execution.'',
                 ToolResultBlock ''toolu_2''
                   (''{"error":"Cannot use '' @ [CHR 0x27] @ ''in'' @ [CHR 0x27] @ '' operator to search for ''
                     @ [CHR 0x27] @ ''data'' @ [CHR 0x27] @ '' in plain"}'')] \<rparr>,
             \<lparr> role = ''assistant'', content = Blocks [TextBlock ''Done.''] \<rparr>])\<close>
proof -
  let ?fetch = "respond (http_response 200 [] (result_only (text_task ''plain''))) :: int transport"
  let ?create = "scripted [plan_then_create, final_answer]"
  let ?c' = "snd (rpc reference ?fetch ''message/send''
                (rpcParams (operation_text reference ''namespace_create'' create_namespace) None) localhost)"
  let ?r = \<open>''{"error":"Cannot use '' @ [CHR 0x27] @ ''in'' @ [CHR 0x27] @ '' operator to search for ''
           @ [CHR 0x27] @ ''data'' @ [CHR 0x27] @ '' in plain"}''\<close>
  have s: "send reference ?fetch ''namespace_create'' create_namespace None localhost
      = (Inr (text_task ''plain''), ?c')"
    by (simp add: send_def rpc_def Let_def respond_def http_response_def ok_def result_only_def)
  have 1: "fst (send reference ?fetch ''namespace_create'' create_namespace None localhost) = Inr (text_task ''plain'')"
    by (simp add: s)
  have p: "printCallBottom reference (Some (JString ''plain''))
      = Inl (TypeError (''Cannot use '' @ [CHR 0x27] @ ''in'' @ [CHR 0x27]
        @ '' operator to search for '' @ [CHR 0x27] @ ''data'' @ [CHR 0x27] @ '' in plain''))"
    by (simp add: printCallBottom_primitive in_operator_error_def)
  have x: "\<And>reflection narration reason.
      executeCall reference ?fetch reflection narration reason ''namespace_create'' create_namespace localhost
      = (?r, ?c')"
    using executeCall_rendering [OF s parse_plain_reply p] stringify_in_operator
    by (simp add: reference_def)
  have 3: "fst (executeCall reference ?fetch [] ''Creating the namespace'' ''The user asked for it''
              ''namespace_create'' create_namespace localhost) = ?r"
    by (simp add: x)
  have 4: \<open>JSON_stringify_indent2 reference (call_result (text_task ''plain'') (JString ''plain''))
       = ''{'' @ [CHR 0x0A] @ ''  "status": "completed",'' @ [CHR 0x0A] @ ''  "data": "plain"'' @ [CHR 0x0A] @ ''}''\<close>
    using stringify_plain_result by (simp add: call_result_def text_task_def reference_def)
  have n: "nullish (Some create_namespace) (JObject []) = create_namespace"
    by (simp add: create_namespace_def)
  have d: "dispatch reference ?fetch (blocks plan_then_create) [] (a2aClient start)
      = ([ToolResultBlock ''toolu_1'' ''Plan acknowledged. Proceed with execution.'',
          ToolResultBlock ''toolu_2'' ?r], ?c')"
    by (simp add: plan_then_create_def start_def n x)
  let ?w1 = "start \<lparr> inferences := inferences start @ [CreateParams MODEL 4096 ''You are Test Agent'' [] (messages start)],
                  a2aClient := ?c',
                  messages := messages start
                    @ [\<lparr> role = ''assistant'', content = Blocks (blocks plan_then_create) \<rparr>,
                       \<lparr> role = ''user'',
                         content = Blocks [ToolResultBlock ''toolu_1'' ''Plan acknowledged. Proceed with execution.'',
                                           ToolResultBlock ''toolu_2'' ?r] \<rparr>] \<rparr>"
  have t: "runTurn reference ?fetch ?create [] ''You are Test Agent'' start
      = runTurn reference ?fetch ?create [] ''You are Test Agent'' ?w1"
    using runTurn_tool_use [where create = ?create and sys = "''You are Test Agent''" and tools = "[]"
            and w = start and response = plan_then_create and rt = reference and fetch = ?fetch]
    by (simp add: scripted_first d) (simp add: plan_then_create_def)
  have f: "?create (CreateParams MODEL 4096 ''You are Test Agent'' [] (messages ?w1)) = Inr final_answer"
    by (rule scripted_second) (simp add: start_def)
  have r: "runTurn reference ?fetch ?create [] ''You are Test Agent'' start
      = Some (Inr (), ?w1 \<lparr> inferences := inferences ?w1 @ [CreateParams MODEL 4096 ''You are Test Agent'' [] (messages ?w1)],
                       messages := messages ?w1 @ [\<lparr> role = ''assistant'', content = Blocks (blocks final_answer) \<rparr>] \<rparr>)"
    using t runTurn_end_turn [where create = ?create and sys = "''You are Test Agent''" and tools = "[]"
        and w = ?w1 and response = final_answer and rt = reference and fetch = ?fetch] f
    by (simp add: final_answer_def)
  have 5: "map_option (\<lambda>r. (fst r, messages (snd r)))
        (runTurn reference ?fetch ?create [] ''You are Test Agent'' start)
       = Some (Inr (),
            [\<lparr> role = ''user'', content = Text ''create a namespace named demo with 2 cores'' \<rparr>,
             \<lparr> role = ''assistant'', content = Blocks (blocks plan_then_create) \<rparr>,
             \<lparr> role = ''user'', content = Blocks
                [ToolResultBlock ''toolu_1'' ''Plan acknowledged. Proceed with execution.'',
                 ToolResultBlock ''toolu_2'' ?r] \<rparr>,
             \<lparr> role = ''assistant'', content = Blocks [TextBlock ''Done.''] \<rparr>])"
    unfolding r by (simp add: start_def final_answer_def)
  from 1 parse_plain_reply 3 4 5 show ?thesis by blast
qed

section \<open>Operation discovery: properties\<close>


text \<open>What the expression for an operation name accepts: a lower-case letter, then
  lower-case letters and underscores.\<close>

lemma star_class_end:
  "length cs \<le> n \<Longrightarrow>
     list_ex (\<lambda>e. fst e = []) (matches n (RStar (RIn S)) (cs, caps))
       = list_all (\<lambda>c. list_ex (in_chars c) S) cs"
proof (induction cs arbitrary: n)
  case Nil
  show ?case by (cases n) (simp_all add: matches.simps)
next
  case (Cons c cs)
  then obtain k where n: "n = Suc k" and k: "length cs \<le> k"
    by (cases n) auto
  show ?case
    using Cons.IH [OF k] by (simp add: n matches.simps)
qed

lemma class_then:
  "matches n (RSeq (RIn A) r) (c # cs, caps) = (if list_ex (in_chars c) A then matches n r (cs, caps) else [])"
  by (simp add: matches.simps)

lemma test_operation_name:
  "test_whole operation_name s =
     (case s of
        [] \<Rightarrow> False
      | c # cs \<Rightarrow> 97 \<le> (of_char c :: nat) \<and> (of_char c :: nat) \<le> 122
          \<and> list_all (\<lambda>d. (97 \<le> (of_char d :: nat) \<and> (of_char d :: nat) \<le> 122) \<or> d = CHR ''_'') cs)"
proof (cases s)
  case Nil
  then show ?thesis by (simp add: test_whole_def operation_name_def matches.simps)
next
  case (Cons c cs)
  have "length cs \<le> Suc (length (c # cs))" by simp
  from star_class_end [OF this, of "[Between CHR ''a'' CHR ''z'', Single CHR ''_'']" "[]"]
  show ?thesis
    by (auto simp add: Cons test_whole_def operation_name_def class_then)
qed

text \<open>Every descriptor of \<^verbatim>\<open>fetchOperationsWithDisplay\<close> has a name that matches.\<close>

lemma display_line_valid:
  "display_line line = Some d \<Longrightarrow> test_whole operation_name (operation d)"
  by (auto simp add: display_line_def Let_def split: if_splits)

lemma fetchOperationsWithDisplay_valid:
  assumes "fst (fetchOperationsWithDisplay rt fetch c) = Inr ds"
  shows "list_all (\<lambda>d. test_whole operation_name (operation d)) ds"
proof -
  have "\<And>ls. list_all (\<lambda>d. test_whole operation_name (operation d)) (List.map_filter display_line ls)"
    by (auto simp add: list_all_iff List.map_filter_def dest: display_line_valid)
  with assms show ?thesis
    by (auto simp add: fetchOperationsWithDisplay_def split: prod.splits sum.splits json.splits)
qed

lemma parse_reply_table:
  \<open>parse ''{"data":{"reply":"| `Deploy App` | name | Deploys |"}}''
     = Inr (JObject [(''data'', JObject [(''reply'', JString ''| `Deploy App` | name | Deploys |'')])])\<close>
  by code_simp

lemma parse_line_backticks:
  \<open>parse_line ''| `Deploy App` | name | Deploys |''
     = Some \<lparr> operation = ''Deploy App'', params = ''name'', description = ''Deploys'' \<rparr>\<close>
  by code_simp

lemma parse_line_underscore:
  \<open>parse_line ''| | _list | - |'' = Some \<lparr> operation = ''_list'', params = ''-'', description = [] \<rparr>\<close>
  by code_simp

lemma split_one_line: \<open>split (CHR 0x0A) ''| `Deploy App` | name | Deploys |'' = [''| `Deploy App` | name | Deploys |'']\<close>
  by code_simp

text \<open>
  C6 does not hold of \<^verbatim>\<open>fetchOperations\<close>. Its first format takes whatever stands between
  backticks as the name, and its second any run of lower-case letters and underscores,
  so it produces descriptors whose names do not match \<^verbatim>\<open>/^[a-z][a-z_]*$/\<close>;
  \<^verbatim>\<open>fetchOperationsWithDisplay\<close> tests the name against that expression and does not.
\<close>

theorem fetchOperations_unchecked_name:
  \<open>fst (fetchOperations reference
          (respond (http_response 200 []
             (result_only (text_task ''{"data":{"reply":"| `Deploy App` | name | Deploys |"}}''))))
          localhost)
     = [\<lparr> operation = ''Deploy App'', params = ''name'', description = ''Deploys'' \<rparr>]
   \<and> test_whole operation_name ''Deploy App'' = False
   \<and> parse_table ''| | _list | - |'' = [\<lparr> operation = ''_list'', params = ''-'', description = [] \<rparr>]
   \<and> test_whole operation_name ''_list'' = False\<close>
proof -
  have 1: \<open>fst (fetchOperations reference
          (respond (http_response 200 []
             (result_only (text_task ''{"data":{"reply":"| `Deploy App` | name | Deploys |"}}''))))
          localhost)
     = [\<lparr> operation = ''Deploy App'', params = ''name'', description = ''Deploys'' \<rparr>]\<close>
    by (simp add: fetchOperations_def sendText_def rpc_def Let_def respond_def http_response_def ok_def
          result_only_def extractData_def textPart_text_task reference_def parse_reply_table reply_of_def
          parse_table_def split_one_line parse_line_backticks List.map_filter_def)
  have 2: "test_whole operation_name ''Deploy App'' = False"
    by (simp add: test_operation_name)
  have 3: \<open>parse_table ''| | _list | - |'' = [\<lparr> operation = ''_list'', params = ''-'', description = [] \<rparr>]\<close>
    by (simp add: parse_table_def parse_line_underscore List.map_filter_def)
  have 4: "test_whole operation_name ''_list'' = False"
    by (simp add: test_operation_name)
  from 1 2 3 4 show ?thesis by blast
qed

end
